theory Spec2Isabelle
  imports Main "HOL-Library.Sublist"
begin

section \<open>Python values\<close>

text \<open>
  The repository is Python. Its strings are modelled as \<open>string\<close>, one \<open>char\<close> standing
  for one character of the Python \<open>str\<close>: the code only concatenates strings, takes their
  length and slices prefixes, and none of that looks inside a character.

  A Python \<open>float\<close> is an IEEE double: a finite one is a sign bit, a mantissa and a binary
  exponent, its exact value being \<open>(-1)^sign * mantissa * 2^exponent\<close>; the others are the
  two infinities and NaN.
\<close>

datatype pyfloat = Finite bool nat int | Infinity bool | NaN

text \<open>The values \<open>json.load\<close> produces, which are also the values a Qdrant payload holds.\<close>

datatype pyval =
    PNone
  | PBool bool
  | PInt int
  | PFloat pyfloat
  | PStr string
  | PList "pyval list"
  | PDict "(string \<times> pyval) list"

type_synonym pydict = "(string \<times> pyval) list"

text \<open>
  A dict is the list of its items, each key once. \<open>dict_get d k dflt\<close> is
  \<open>d.get(k, dflt)\<close>, and \<open>d.get(k)\<close> is \<open>dict_get d k PNone\<close>.
\<close>

definition dict_get :: "pydict \<Rightarrow> string \<Rightarrow> pyval \<Rightarrow> pyval" where
  "dict_get d k dflt = (case map_of d k of None \<Rightarrow> dflt | Some v \<Rightarrow> v)"

text \<open>
  The exceptions the code raises or lets through. \<open>UpstreamError\<close> stands for whatever
  an external collaborator raises; an \<open>HTTPException\<close> has its status code, its detail
  text and, where the detail quotes another exception, that exception.
\<close>

datatype error =
    FileNotFoundError string
  | ValueError string
  | JSONDecodeError
  | TypeError
  | ValidationError
  | UpstreamError string
  | HTTPException nat string "error option"

subsection \<open>Formatting\<close>

text \<open>The decimal digits of a natural number; \<open>digit_char\<close> is applied to 0..9 only.\<close>

definition digit_char :: "nat \<Rightarrow> char" where
  "digit_char d = ''0123456789'' ! d"

fun dec :: "nat \<Rightarrow> string" where
  "dec n = (if n < 10 then [digit_char n] else dec (n div 10) @ [digit_char (n mod 10)])"

declare dec.simps [simp del]

text \<open>\<open>str(i)\<close> of an \<open>int\<close>, which is what \<open>f"{i}"\<close> interpolates.\<close>

definition str_int :: "int \<Rightarrow> string" where
  "str_int i = (if i < 0 then ''-'' @ dec (nat (- i)) else dec (nat i))"

text \<open>
  \<open>f"{x:.3f}"\<close> of a float. For a finite float Python prints the exact binary value
  rounded to three decimals, ties to even, with the sign of the float in front (also in
  front of a value that rounds to zero); \<open>thousandths\<close> is that rounded magnitude in
  units of 1/1000. The non-finite floats print as words.
\<close>

definition round_half_even :: "nat \<Rightarrow> nat \<Rightarrow> nat" where
  "round_half_even num den =
     (let q = num div den; r = num mod den
      in if den < 2 * r \<or> (2 * r = den \<and> odd q) then q + 1 else q)"

definition thousandths :: "nat \<Rightarrow> int \<Rightarrow> nat" where
  "thousandths m e =
     (if 0 \<le> e then m * 1000 * 2 ^ nat e else round_half_even (m * 1000) (2 ^ nat (- e)))"

fun format_3f :: "pyfloat \<Rightarrow> string" where
  "format_3f (Finite sign m e) =
     (let n = thousandths m e
      in (if sign then ''-'' else []) @ dec (n div 1000) @ ''.'' @
         [digit_char (n mod 1000 div 100), digit_char (n mod 100 div 10), digit_char (n mod 10)])"
| "format_3f (Infinity sign) = (if sign then ''-inf'' else ''inf'')"
| "format_3f NaN = ''nan''"

text \<open>\<open>sep.join(parts)\<close>.\<close>

fun join :: "string \<Rightarrow> string list \<Rightarrow> string" where
  "join sep [] = []"
| "join sep [x] = x"
| "join sep (x # y # ys) = x @ sep @ join sep (y # ys)"

text \<open>
  \<open>s.strip()\<close>: the characters Python counts as whitespace, among the first 256 code
  points, are removed from both ends.
\<close>

definition is_space :: "char \<Rightarrow> bool" where
  "is_space c =
     (let n = (of_char c :: nat)
      in (9 \<le> n \<and> n \<le> 13) \<or> (28 \<le> n \<and> n \<le> 32) \<or> n = 133 \<or> n = 160)"

definition strip :: "string \<Rightarrow> string" where
  "strip s = rev (dropWhile is_space (rev (dropWhile is_space s)))"

text \<open>
  \<open>f"{v}"\<close> interpolates \<open>str(v)\<close>. For a \<open>str\<close> that is the string itself, for \<open>None\<close>
  and the booleans a fixed word, for an \<open>int\<close> its decimal digits. The renderings of
  floats, lists and dicts are Python's own (\<open>repr\<close>); they are the parameter \<open>str_of\<close>.
\<close>

fun py_str :: "(pyval \<Rightarrow> string) \<Rightarrow> pyval \<Rightarrow> string" where
  "py_str str_of (PStr s) = s"
| "py_str str_of PNone = ''None''"
| "py_str str_of (PBool b) = (if b then ''True'' else ''False'')"
| "py_str str_of (PInt i) = str_int i"
| "py_str str_of v = str_of v"

text \<open>A rendering for concrete evaluations.\<close>

definition sample_str_of :: "pyval \<Rightarrow> string" where
  "sample_str_of v = ''<object>''"

section \<open>Ingestion: \<open>data-ingestion/ingestion.py\<close>\<close>

subsection \<open>\<open>prepare_text_for_embedding\<close>\<close>

definition prepare_text_for_embedding :: "(pyval \<Rightarrow> string) \<Rightarrow> pydict \<Rightarrow> string" where
  "prepare_text_for_embedding str_of document =
     (let title = dict_get document ''title'' (PStr '''');
          content = dict_get document ''content'' (PStr '''');
          text = py_str str_of title @ ''\<newline>\<newline>'' @ py_str str_of content;
          max_chars = 5000
      in if length text > max_chars then take max_chars text else text)"

subsection \<open>The store and its collaborators\<close>

text \<open>
  An embedding vector is the list \<open>embedding.tolist()\<close> gives. The embedding model and
  the Qdrant client are external: the store holds them as functions, each able to fail.
  \<open>encode\<close> is \<open>embedding_model.encode\<close> on one string, \<open>encode_batch\<close> the same
  method on a list of strings; \<open>client_search\<close> is the client's nearest-neighbour query
  (collection name, query vector, limit) and \<open>client_upsert\<close> its upsert, which
  returns nothing unless it raises.

  The repository has two classes \<open>ArizonaPlantVectorStore\<close>, one in the ingestion
  module and one in the serving application. One record models both: they hold the same
  collaborators, the first querying the index with \<open>client.search\<close> and the second
  with \<open>client.query_points\<close>.
\<close>

type_synonym vector = "pyfloat list"

record scored_point =
  sp_id :: nat
  sp_score :: pyfloat
  sp_payload :: pydict

record point_struct =
  point_id :: nat
  point_vector :: vector
  point_payload :: pydict

record vector_store =
  collection_name :: string
  encode :: "string \<Rightarrow> error + vector"
  encode_batch :: "string list \<Rightarrow> error + vector list"
  client_search :: "string \<Rightarrow> vector \<Rightarrow> int \<Rightarrow> error + scored_point list"
  client_upsert :: "string \<Rightarrow> point_struct list \<Rightarrow> error option"

text \<open>
  The calls a function makes to its collaborators, in the order it makes them:
  \<open>Encode q\<close> is one call of \<open>encode\<close> on the single string \<open>q\<close>; \<open>Search\<close>,
  \<open>Upsert\<close> and \<open>ChatCompletion\<close> are calls of the index and of the language model,
  with their arguments.
\<close>

datatype call =
    Encode string
  | Search string vector int
  | Upsert string "point_struct list"
  | ChatCompletion string

subsection \<open>\<open>load_dataset\<close>\<close>

text \<open>
  The file system, \<open>pathlib\<close> and \<open>json\<close> are the platform's: \<open>path_exists\<close> is
  \<open>Path.exists\<close>, \<open>path_suffix\<close> is \<open>Path.suffix\<close>, \<open>read_text\<close> opens the file
  and gives its decoded text, \<open>json_loads\<close> parses one JSON document. The text is taken
  as read in full before any of it is parsed; for a file that cannot be opened or decoded
  \<open>read_text\<close> gives the error.
\<close>

record platform =
  path_exists :: "string \<Rightarrow> bool"
  path_suffix :: "string \<Rightarrow> string"
  read_text :: "string \<Rightarrow> error + string"
  json_loads :: "string \<Rightarrow> error + pyval"

text \<open>
  \<open>for line in f\<close>: the lines of the text, each with its newline (a last line may
  lack it). The text is as text mode gives it, with every line ending read as one newline
  character. \<open>cur\<close> is the line being collected.
\<close>

fun file_lines :: "string \<Rightarrow> string \<Rightarrow> string list" where
  "file_lines cur [] = (if cur = [] then [] else [cur])"
| "file_lines cur (c # cs) =
     (if c = CHR ''\<newline>'' then (cur @ [c]) # file_lines [] cs else file_lines (cur @ [c]) cs)"

text \<open>The loop \<open>for line in f: documents.append(json.loads(line))\<close>.\<close>

fun loads_lines :: "(string \<Rightarrow> error + pyval) \<Rightarrow> string list \<Rightarrow> pyval list \<Rightarrow> error + pyval list" where
  "loads_lines loads [] documents = Inr documents"
| "loads_lines loads (line # rest) documents =
     (case loads line of
        Inl e \<Rightarrow> Inl e
      | Inr v \<Rightarrow> loads_lines loads rest (documents @ [v]))"

text \<open>\<open>len(v)\<close>, which the closing \<open>print\<close> of \<open>load_dataset\<close> evaluates.\<close>

fun py_len :: "pyval \<Rightarrow> error + nat" where
  "py_len (PStr s) = Inr (length s)"
| "py_len (PList xs) = Inr (length xs)"
| "py_len (PDict d) = Inr (length d)"
| "py_len v = Inl TypeError"

definition load_dataset :: "platform \<Rightarrow> string \<Rightarrow> error + pyval" where
  "load_dataset os dataset_path =
     (if \<not> path_exists os dataset_path
      then Inl (FileNotFoundError (''Dataset not found: '' @ dataset_path))
      else
        (case
           (if path_suffix os dataset_path = ''.json'' then
              (case read_text os dataset_path of
                 Inl e \<Rightarrow> Inl e
               | Inr text \<Rightarrow> json_loads os text)
            else if path_suffix os dataset_path = ''.jsonl'' then
              (case read_text os dataset_path of
                 Inl e \<Rightarrow> Inl e
               | Inr text \<Rightarrow>
                   (case loads_lines (json_loads os) (file_lines [] text) [] of
                      Inl e \<Rightarrow> Inl e
                    | Inr documents \<Rightarrow> Inr (PList documents)))
            else Inl (ValueError (''Unsupported file format: '' @ path_suffix os dataset_path)))
         of
           Inl e \<Rightarrow> Inl e
         | Inr documents \<Rightarrow>
             (case py_len documents of
                Inl e \<Rightarrow> Inl e
              | Inr n \<Rightarrow> Inr documents)))"

subsection \<open>\<open>create_embeddings\<close>\<close>

record embedded =
  document :: pydict
  embedding :: vector
  embedded_text :: string

text \<open>
  The loop \<open>for i in range(0, len(texts), batch_size)\<close> for a positive step, from
  index \<open>i\<close> on; \<open>all_embeddings\<close> is the accumulator the loop extends.
\<close>

function embed_batches ::
  "(string list \<Rightarrow> error + vector list) \<Rightarrow> string list \<Rightarrow> nat \<Rightarrow> nat \<Rightarrow> vector list
     \<Rightarrow> error + vector list" where
  "embed_batches enc texts batch_size i all_embeddings =
     (if i < length texts \<and> 0 < batch_size then
        (case enc (take batch_size (drop i texts)) of
           Inl e \<Rightarrow> Inl e
         | Inr batch_embeddings \<Rightarrow>
             embed_batches enc texts batch_size (i + batch_size) (all_embeddings @ batch_embeddings))
      else Inr all_embeddings)"
  by pat_completeness auto
termination
  by (relation "measure (\<lambda>(enc, texts, batch_size, i, all_embeddings). length texts - i)") auto

declare embed_batches.simps [simp del]

text \<open>
  \<open>range(0, n, 0)\<close> raises \<open>ValueError\<close>; with a negative step the range is empty and
  the loop body never runs. \<open>zip\<close> stops at the shortest of its arguments.
\<close>

definition create_embeddings ::
  "vector_store \<Rightarrow> (pyval \<Rightarrow> string) \<Rightarrow> pydict list \<Rightarrow> int \<Rightarrow> error + embedded list" where
  "create_embeddings vs str_of documents batch_size =
     (let texts = map (prepare_text_for_embedding str_of) documents in
      if batch_size = 0 then Inl (ValueError ''range() arg 3 must not be zero'')
      else
        (case (if batch_size < 0 then Inr []
               else embed_batches (encode_batch vs) texts (nat batch_size) 0 []) of
           Inl e \<Rightarrow> Inl e
         | Inr all_embeddings \<Rightarrow>
             Inr (map (\<lambda>(doc, emb, txt). \<lparr>document = doc, embedding = emb, embedded_text = txt\<rparr>)
                    (zip documents (zip all_embeddings texts)))))"

subsection \<open>\<open>upload_to_qdrant\<close>\<close>

text \<open>The \<open>PointStruct\<close> built for the item at position \<open>idx\<close>.\<close>

definition point_of :: "nat \<Rightarrow> embedded \<Rightarrow> point_struct" where
  "point_of idx item =
     (let doc = document item in
      \<lparr>point_id = idx,
       point_vector = embedding item,
       point_payload =
         [(''id'', dict_get doc ''id'' PNone),
          (''type'', dict_get doc ''type'' PNone),
          (''source'', dict_get doc ''source'' PNone),
          (''title'', dict_get doc ''title'' PNone),
          (''content'', dict_get doc ''content'' PNone),
          (''metadata'', dict_get doc ''metadata'' (PDict []))]\<rparr>)"

text \<open>
  The loop \<open>for i in range(0, len(points), batch_size)\<close> that upserts one slice at a
  time, from index \<open>i\<close> on. The result is the list of calls made and the error that
  stopped the loop, if one did.
\<close>

function upsert_batches ::
  "vector_store \<Rightarrow> point_struct list \<Rightarrow> nat \<Rightarrow> nat \<Rightarrow> call list \<Rightarrow> call list \<times> error option" where
  "upsert_batches vs points batch_size i calls =
     (if i < length points \<and> 0 < batch_size then
        (let batch = take batch_size (drop i points);
             calls' = calls @ [Upsert (collection_name vs) batch]
         in case client_upsert vs (collection_name vs) batch of
              Some e \<Rightarrow> (calls', Some e)
            | None \<Rightarrow> upsert_batches vs points batch_size (i + batch_size) calls')
      else (calls, None))"
  by pat_completeness auto
termination
  by (relation "measure (\<lambda>(vs, points, batch_size, i, calls). length points - i)") auto

declare upsert_batches.simps [simp del]

definition upload_to_qdrant :: "vector_store \<Rightarrow> embedded list \<Rightarrow> call list \<times> error option" where
  "upload_to_qdrant vs documents_with_embeddings =
     (let points = map (\<lambda>(idx, item). point_of idx item) (enumerate 0 documents_with_embeddings);
          batch_size = 100
      in upsert_batches vs points batch_size 0 [])"

subsection \<open>\<open>search\<close> of the ingestion module\<close>

text \<open>A formatted result: the dict with the seven fixed keys that both searches build.\<close>

record search_result =
  res_score :: pyfloat
  res_id :: pyval
  res_title :: pyval
  res_type :: pyval
  res_source :: pyval
  res_content :: pyval
  res_metadata :: pyval

text \<open>
  \<open>v[:500] + "..."\<close>. Only a \<open>str\<close> can be sliced and then concatenated with a
  \<open>str\<close>: \<open>None\<close>, numbers and booleans are not subscriptable, a dict cannot be
  sliced, and a sliced list cannot be concatenated with a \<open>str\<close>; each raises
  (\<open>TypeError\<close>; for the dict \<open>KeyError\<close> from Python 3.12 on).
\<close>

fun truncate_for_display :: "pyval \<Rightarrow> error + pyval" where
  "truncate_for_display (PStr s) = Inr (PStr (take 500 s @ ''...''))"
| "truncate_for_display v = Inl TypeError"

definition format_result :: "scored_point \<Rightarrow> error + search_result" where
  "format_result result =
     (case truncate_for_display (dict_get (sp_payload result) ''content'' PNone) of
        Inl e \<Rightarrow> Inl e
      | Inr content \<Rightarrow>
          Inr \<lparr>res_score = sp_score result,
               res_id = dict_get (sp_payload result) ''id'' PNone,
               res_title = dict_get (sp_payload result) ''title'' PNone,
               res_type = dict_get (sp_payload result) ''type'' PNone,
               res_source = dict_get (sp_payload result) ''source'' PNone,
               res_content = content,
               res_metadata = dict_get (sp_payload result) ''metadata'' PNone\<rparr>)"

text \<open>The loop \<open>for result in results: formatted_results.append(...)\<close>.\<close>

fun format_results :: "scored_point list \<Rightarrow> search_result list \<Rightarrow> error + search_result list" where
  "format_results [] formatted_results = Inr formatted_results"
| "format_results (result # rest) formatted_results =
     (case format_result result of
        Inl e \<Rightarrow> Inl e
      | Inr r \<Rightarrow> format_results rest (formatted_results @ [r]))"

definition ingestion_search ::
  "vector_store \<Rightarrow> string \<Rightarrow> int \<Rightarrow> call list \<times> (error + search_result list)" where
  "ingestion_search vs query limit =
     (case encode vs query of
        Inl e \<Rightarrow> ([Encode query], Inl e)
      | Inr query_embedding \<Rightarrow>
          (case client_search vs (collection_name vs) query_embedding limit of
             Inl e \<Rightarrow> ([Encode query, Search (collection_name vs) query_embedding limit], Inl e)
           | Inr results \<Rightarrow>
               ([Encode query, Search (collection_name vs) query_embedding limit],
                format_results results [])))"

section \<open>Serving: \<open>assistant-app\<close>\<close>

subsection \<open>\<open>ArizonaPlantVectorStore.search\<close>\<close>

definition format_point :: "scored_point \<Rightarrow> search_result" where
  "format_point point =
     \<lparr>res_score = sp_score point,
      res_id = dict_get (sp_payload point) ''id'' (PStr ''N/A''),
      res_title = dict_get (sp_payload point) ''title'' (PStr ''Untitled''),
      res_type = dict_get (sp_payload point) ''type'' (PStr []),
      res_source = dict_get (sp_payload point) ''source'' (PStr []),
      res_content = dict_get (sp_payload point) ''content'' (PStr []),
      res_metadata = dict_get (sp_payload point) ''metadata'' (PDict [])\<rparr>"

definition search ::
  "vector_store \<Rightarrow> string \<Rightarrow> int \<Rightarrow> call list \<times> (error + search_result list)" where
  "search vs query limit =
     (case encode vs query of
        Inl e \<Rightarrow> ([Encode query], Inl e)
      | Inr query_embedding \<Rightarrow>
          (case client_search vs (collection_name vs) query_embedding limit of
             Inl e \<Rightarrow> ([Encode query, Search (collection_name vs) query_embedding limit], Inl e)
           | Inr points \<Rightarrow>
               ([Encode query, Search (collection_name vs) query_embedding limit],
                Inr (map format_point points))))"

subsection \<open>\<open>ArizonaPlantRAG\<close>\<close>

text \<open>
  The loop \<open>for i, result in enumerate(search_results, 1)\<close>, which appends five lines
  to \<open>context_parts\<close> for each result.
\<close>

fun context_loop ::
  "(pyval \<Rightarrow> string) \<Rightarrow> nat \<Rightarrow> search_result list \<Rightarrow> string list \<Rightarrow> string list" where
  "context_loop str_of i [] context_parts = context_parts"
| "context_loop str_of i (result # rest) context_parts =
     context_loop str_of (i + 1) rest
       (context_parts @
        [''Document '' @ dec i @ '' (Score: '' @ format_3f (res_score result) @ ''):'',
         ''Title: '' @ py_str str_of (res_title result),
         ''Source: '' @ py_str str_of (res_source result),
         ''Content: '' @ py_str str_of (res_content result),
         []])"

text \<open>The three fixed pieces of the prompt template, around \<open>{context}\<close> and \<open>{query}\<close>.\<close>

definition prompt_head :: string where
  "prompt_head =
     ''You are an expert on Arizona desert plants. Answer the user's question based on the provided context from authoritative sources.\<newline>'' @
     ''\<newline>        Context from relevant documents:\<newline>'' @
     ''        ''"

definition prompt_question :: string where
  "prompt_question =
     ''\<newline>\<newline>        User Question: ''"

definition prompt_instructions :: string where
  "prompt_instructions =
     ''\<newline>\<newline>        Instructions:\<newline>'' @
     ''        - Provide a clear, detailed answer based on the context above\<newline>'' @
     ''        - If the context contains scientific names, include them\<newline>'' @
     ''        - If mentioning care instructions, be specific about Arizona conditions\<newline>'' @
     ''        - If the context doesn't fully answer the question, say so\<newline>'' @
     ''        - Cite which document(s) you're drawing from (e.g., '' @
     [CHR 0x22] @
     ''According to Document 1...'' @
     [CHR 0x22] @
     '')\<newline>\<newline>        Answer:''"

definition build_prompt :: "(pyval \<Rightarrow> string) \<Rightarrow> string \<Rightarrow> search_result list \<Rightarrow> string" where
  "build_prompt str_of query search_results =
     (let context_parts = context_loop str_of 1 search_results [];
          context = join ''\<newline>'' context_parts
      in strip (prompt_head @ context @ prompt_question @ query @ prompt_instructions))"

text \<open>
  The RAG object holds its vector store and the OpenAI client; \<open>chat_completion\<close> is the
  call \<open>llm\<close> makes (model, sampling temperature and token bound are fixed arguments of
  that call), giving the content of the first choice.
\<close>

record rag_system =
  rag_vector_store :: vector_store
  chat_completion :: "string \<Rightarrow> error + string"

definition llm :: "rag_system \<Rightarrow> string \<Rightarrow> call list \<times> (error + string)" where
  "llm r prompt = ([ChatCompletion prompt], chat_completion r prompt)"

definition rag :: "rag_system \<Rightarrow> (pyval \<Rightarrow> string) \<Rightarrow> string \<Rightarrow> call list \<times> (error + string)" where
  "rag r str_of query =
     (case search (rag_vector_store r) query 5 of
        (calls, Inl e) \<Rightarrow> (calls, Inl e)
      | (calls, Inr search_results) \<Rightarrow>
          (let prompt = build_prompt str_of query search_results
           in case llm r prompt of (calls', answer) \<Rightarrow> (calls @ calls', answer)))"

subsection \<open>\<open>app.py\<close>\<close>

text \<open>
  The request model: \<open>question\<close> of at least 3 characters, \<open>top_k\<close> between 1 and 10.
  The framework builds it from the request body before it calls an endpoint, and answers
  with a validation error when it cannot.
\<close>

record query_request =
  question :: string
  top_k :: int

definition QueryRequest :: "string \<Rightarrow> int \<Rightarrow> error + query_request" where
  "QueryRequest q k =
     (if length q < 3 \<or> k < 1 \<or> 10 < k then Inl ValidationError
      else Inr \<lparr>question = q, top_k = k\<rparr>)"

text \<open>The response model \<open>SearchResult\<close>: every field but the score must be a \<open>str\<close>.\<close>

record api_search_result =
  api_id :: string
  api_title :: string
  api_score :: pyfloat
  api_content :: string
  api_type :: string
  api_source :: string

fun as_str :: "pyval \<Rightarrow> error + string" where
  "as_str (PStr s) = Inr s"
| "as_str v = Inl ValidationError"

text \<open>\<open>v[:500] + "..." if len(v) > 500 else v\<close>.\<close>

definition display_content :: "pyval \<Rightarrow> error + pyval" where
  "display_content v =
     (case py_len v of
        Inl e \<Rightarrow> Inl e
      | Inr n \<Rightarrow> if n > 500 then truncate_for_display v else Inr v)"

definition SearchResult :: "search_result \<Rightarrow> error + api_search_result" where
  "SearchResult doc =
     (case display_content (res_content doc) of
        Inl e \<Rightarrow> Inl e
      | Inr content \<Rightarrow>
          (case (as_str (res_id doc), as_str (res_title doc), as_str content,
                 as_str (res_type doc), as_str (res_source doc)) of
             (Inr i, Inr t, Inr c, Inr ty, Inr s) \<Rightarrow>
               Inr \<lparr>api_id = i, api_title = t, api_score = res_score doc,
                    api_content = c, api_type = ty, api_source = s\<rparr>
           | _ \<Rightarrow> Inl ValidationError))"

text \<open>A list comprehension whose element expression may raise.\<close>

fun map_result :: "('a \<Rightarrow> error + 'b) \<Rightarrow> 'a list \<Rightarrow> error + 'b list" where
  "map_result f [] = Inr []"
| "map_result f (x # xs) =
     (case f x of
        Inl e \<Rightarrow> Inl e
      | Inr y \<Rightarrow> (case map_result f xs of Inl e \<Rightarrow> Inl e | Inr ys \<Rightarrow> Inr (y # ys)))"

text \<open>
  The response of \<open>/query\<close>, without its timestamp. The globals \<open>rag\<close> and
  \<open>vector_store\<close> are \<open>None\<close> until startup has set them.
\<close>

record query_response =
  resp_question :: string
  resp_answer :: string
  retrieved_documents :: "api_search_result list"
  resp_model :: string

record app_state =
  app_rag :: "rag_system option"
  app_vector_store :: "vector_store option"

text \<open>
  The body of the \<open>try\<close> of \<open>query_rag\<close>, then the \<open>except Exception\<close> around it,
  which turns every exception (the 503 included) into a 500.
\<close>

definition query_rag_body ::
  "app_state \<Rightarrow> (pyval \<Rightarrow> string) \<Rightarrow> query_request \<Rightarrow> call list \<times> (error + query_response)" where
  "query_rag_body st str_of request =
     (case (app_rag st, app_vector_store st) of
        (Some r, Some vs) \<Rightarrow>
          (case rag r str_of (question request) of
             (calls, Inl e) \<Rightarrow> (calls, Inl e)
           | (calls, Inr answer) \<Rightarrow>
               (case search vs (question request) (top_k request) of
                  (calls', Inl e) \<Rightarrow> (calls @ calls', Inl e)
                | (calls', Inr retrieved_docs) \<Rightarrow>
                    (case map_result SearchResult retrieved_docs of
                       Inl e \<Rightarrow> (calls @ calls', Inl e)
                     | Inr search_results \<Rightarrow>
                         (calls @ calls',
                          Inr \<lparr>resp_question = question request,
                               resp_answer = answer,
                               retrieved_documents = search_results,
                               resp_model = ''gpt-4o-mini''\<rparr>))))
      | _ \<Rightarrow> ([], Inl (HTTPException 503 ''RAG system not initialized'' None)))"

definition query_rag ::
  "app_state \<Rightarrow> (pyval \<Rightarrow> string) \<Rightarrow> query_request \<Rightarrow> call list \<times> (error + query_response)" where
  "query_rag st str_of request =
     (case query_rag_body st str_of request of
        (calls, Inl e) \<Rightarrow> (calls, Inl (HTTPException 500 ''Error processing query: '' (Some e)))
      | (calls, Inr response) \<Rightarrow> (calls, Inr response))"

text \<open>
  \<open>search_documents\<close>, the endpoint \<open>/search\<close>: the formatted results (its response
  also repeats the query and counts the results).
\<close>

definition search_documents ::
  "app_state \<Rightarrow> query_request \<Rightarrow> call list \<times> (error + api_search_result list)" where
  "search_documents st request =
     (case
        (case app_vector_store st of
           None \<Rightarrow> ([], Inl (HTTPException 503 ''Vector store not initialized'' None))
         | Some vs \<Rightarrow>
             (case search vs (question request) (top_k request) of
                (calls, Inl e) \<Rightarrow> (calls, Inl e)
              | (calls, Inr results) \<Rightarrow> (calls, map_result SearchResult results)))
      of
        (calls, Inl e) \<Rightarrow> (calls, Inl (HTTPException 500 ''Error searching documents: '' (Some e)))
      | (calls, Inr search_results) \<Rightarrow> (calls, Inr search_results))"

text \<open>A request as it reaches the service: the request model is built, then the endpoint runs.\<close>

definition post_search ::
  "app_state \<Rightarrow> string \<Rightarrow> int \<Rightarrow> call list \<times> (error + api_search_result list)" where
  "post_search st q k =
     (case QueryRequest q k of
        Inl e \<Rightarrow> ([], Inl e)
      | Inr request \<Rightarrow> search_documents st request)"

definition post_query ::
  "app_state \<Rightarrow> (pyval \<Rightarrow> string) \<Rightarrow> string \<Rightarrow> int \<Rightarrow> call list \<times> (error + query_response)" where
  "post_query st str_of q k =
     (case QueryRequest q k of
        Inl e \<Rightarrow> ([], Inl e)
      | Inr request \<Rightarrow> query_rag st str_of request)"

section \<open>Notions used in the statements\<close>

text \<open>The combined string of a document, before the cut.\<close>

definition full_text :: "(pyval \<Rightarrow> string) \<Rightarrow> pydict \<Rightarrow> string" where
  "full_text str_of doc =
     py_str str_of (dict_get doc ''title'' (PStr '''')) @ ''\<newline>\<newline>'' @
     py_str str_of (dict_get doc ''content'' (PStr ''''))"

text \<open>The points that a list of calls has sent to the index, in the order sent.\<close>

fun upserted_points :: "call \<Rightarrow> point_struct list" where
  "upserted_points (Upsert c batch) = batch"
| "upserted_points other = []"

definition uploaded :: "call list \<Rightarrow> point_struct list" where
  "uploaded calls = concat (map upserted_points calls)"

text \<open>A point whose payload holds a string under \<open>content\<close>.\<close>

definition has_content :: "scored_point \<Rightarrow> bool" where
  "has_content p = (case dict_get (sp_payload p) ''content'' PNone of PStr s \<Rightarrow> True | _ \<Rightarrow> False)"

text \<open>
  A number printed with exactly three decimals: an optional minus sign, at least one digit,
  a point, three digits, and nothing more.
\<close>

definition is_digit :: "char \<Rightarrow> bool" where
  "is_digit c = (c \<in> set ''0123456789'')"

definition three_decimals :: "string \<Rightarrow> bool" where
  "three_decimals s =
     (let body = (case s of [] \<Rightarrow> s | c # cs \<Rightarrow> if c = CHR ''-'' then cs else s);
          rest = dropWhile is_digit body
      in takeWhile is_digit body \<noteq> [] \<and>
         (case rest of
            [p, a, b, c] \<Rightarrow> p = CHR ''.'' \<and> is_digit a \<and> is_digit b \<and> is_digit c
          | _ \<Rightarrow> False))"

text \<open>The five lines the prompt holds for the result of rank \<open>i\<close>.\<close>

definition document_block :: "(pyval \<Rightarrow> string) \<Rightarrow> nat \<Rightarrow> search_result \<Rightarrow> string list" where
  "document_block str_of i result =
     [''Document '' @ dec i @ '' (Score: '' @ format_3f (res_score result) @ ''):'',
      ''Title: '' @ py_str str_of (res_title result),
      ''Source: '' @ py_str str_of (res_source result),
      ''Content: '' @ py_str str_of (res_content result),
      []]"

section \<open>Sample data\<close>

text \<open>
  A small world for concrete evaluations: three documents, an embedding model that maps a
  text to a one-dimensional vector, and an index that holds the three documents as points
  and answers a query with the first \<open>limit\<close> of them.
\<close>

definition sample_documents :: "pydict list" where
  "sample_documents =
     [[(''id'', PStr ''p1''), (''type'', PStr ''plant''), (''source'', PStr ''X''),
       (''title'', PStr ''Saguaro''),
       (''content'', PStr ''Carnegiea gigantea tolerates extreme heat'')],
      [(''id'', PStr ''p2''), (''type'', PStr ''plant''), (''source'', PStr ''Y''),
       (''title'', PStr ''Ocotillo''),
       (''content'', PStr ''Fouquieria splendens leafs out after rain'')],
      [(''id'', PStr ''p3''), (''type'', PStr ''plant''), (''source'', PStr ''Z''),
       (''title'', PStr ''Palo verde'')]]"

definition sample_vector :: "string \<Rightarrow> vector" where
  "sample_vector s = [Finite False (length s) 0]"

definition sample_encode :: "string \<Rightarrow> error + vector" where
  "sample_encode s = Inr (sample_vector s)"

definition sample_encode_batch :: "string list \<Rightarrow> error + vector list" where
  "sample_encode_batch ts = Inr (map sample_vector ts)"

definition sample_points :: "scored_point list" where
  "sample_points =
     [\<lparr>sp_id = 0, sp_score = Finite False 7 (- 3),
       sp_payload =
         [(''id'', PStr ''p1''), (''type'', PStr ''plant''), (''source'', PStr ''X''),
          (''title'', PStr ''Saguaro''),
          (''content'', PStr ''Carnegiea gigantea tolerates extreme heat''),
          (''metadata'', PDict [])]\<rparr>,
      \<lparr>sp_id = 1, sp_score = Finite False 3 (- 2),
       sp_payload =
         [(''id'', PStr ''p2''), (''type'', PStr ''plant''), (''source'', PStr ''Y''),
          (''title'', PStr ''Ocotillo''),
          (''content'', PStr ''Fouquieria splendens leafs out after rain''),
          (''metadata'', PDict [])]\<rparr>,
      \<lparr>sp_id = 2, sp_score = Finite False 5 (- 3),
       sp_payload =
         [(''id'', PStr ''p3''), (''type'', PStr ''plant''), (''source'', PStr ''Z''),
          (''title'', PStr ''Palo verde''),
          (''content'', PNone),
          (''metadata'', PDict [])]\<rparr>]"

definition sample_client_search :: "string \<Rightarrow> vector \<Rightarrow> int \<Rightarrow> error + scored_point list" where
  "sample_client_search name v limit = Inr (take (nat limit) sample_points)"

definition sample_client_upsert :: "string \<Rightarrow> point_struct list \<Rightarrow> error option" where
  "sample_client_upsert name batch = None"

definition sample_store :: vector_store where
  "sample_store =
     \<lparr>collection_name = ''arizona_plants'',
      encode = sample_encode,
      encode_batch = sample_encode_batch,
      client_search = sample_client_search,
      client_upsert = sample_client_upsert\<rparr>"

definition sample_chat_completion :: "string \<Rightarrow> error + string" where
  "sample_chat_completion prompt = Inr ''According to Document 1, the saguaro tolerates heat.''"

definition sample_rag :: rag_system where
  "sample_rag = \<lparr>rag_vector_store = sample_store, chat_completion = sample_chat_completion\<rparr>"

definition sample_app :: app_state where
  "sample_app = \<lparr>app_rag = Some sample_rag, app_vector_store = Some sample_store\<rparr>"

definition sample_embedded :: "embedded list" where
  "sample_embedded =
     [\<lparr>document = sample_documents ! 0, embedding = [Finite False 50 0],
       embedded_text = ''Saguaro\<newline>\<newline>Carnegiea gigantea tolerates extreme heat''\<rparr>,
      \<lparr>document = sample_documents ! 1, embedding = [Finite False 51 0],
       embedded_text = ''Ocotillo\<newline>\<newline>Fouquieria splendens leafs out after rain''\<rparr>,
      \<lparr>document = sample_documents ! 2, embedding = [Finite False 12 0],
       embedded_text = ''Palo verde\<newline>\<newline>''\<rparr>]"

definition sample_uploaded :: "point_struct list" where
  "sample_uploaded =
     [\<lparr>point_id = 0, point_vector = [Finite False 50 0],
       point_payload =
         [(''id'', PStr ''p1''), (''type'', PStr ''plant''), (''source'', PStr ''X''),
          (''title'', PStr ''Saguaro''),
          (''content'', PStr ''Carnegiea gigantea tolerates extreme heat''),
          (''metadata'', PDict [])]\<rparr>,
      \<lparr>point_id = 1, point_vector = [Finite False 51 0],
       point_payload =
         [(''id'', PStr ''p2''), (''type'', PStr ''plant''), (''source'', PStr ''Y''),
          (''title'', PStr ''Ocotillo''),
          (''content'', PStr ''Fouquieria splendens leafs out after rain''),
          (''metadata'', PDict [])]\<rparr>,
      \<lparr>point_id = 2, point_vector = [Finite False 12 0],
       point_payload =
         [(''id'', PStr ''p3''), (''type'', PStr ''plant''), (''source'', PStr ''Z''),
          (''title'', PStr ''Palo verde''),
          (''content'', PNone),
          (''metadata'', PDict [])]\<rparr>]"

text \<open>
  A file system with five files, a suffix function for names with one dot, and a parser
  that knows three texts.
\<close>

definition sample_exists :: "string \<Rightarrow> bool" where
  "sample_exists p =
     (p \<in> set [''plants.json'', ''plants.jsonl'', ''plants.csv'', ''broken.json'', ''broken.jsonl''])"

definition not_dot :: "char \<Rightarrow> bool" where
  "not_dot c = (c \<noteq> CHR ''.'')"

definition sample_suffix :: "string \<Rightarrow> string" where
  "sample_suffix p = dropWhile not_dot p"

definition sample_read_text :: "string \<Rightarrow> error + string" where
  "sample_read_text p =
     (if p = ''plants.json'' then Inr ''[{}]''
      else if p = ''plants.jsonl'' then Inr ''{}\<newline>{}\<newline>''
      else if p = ''broken.json'' then Inr ''[{''
      else if p = ''broken.jsonl'' then Inr ''{}\<newline>{\<newline>''
      else Inr [])"

definition sample_json_loads :: "string \<Rightarrow> error + pyval" where
  "sample_json_loads s =
     (if s = ''[{}]'' then Inr (PList [PDict []])
      else if s = ''{}\<newline>'' then Inr (PDict [])
      else Inl JSONDecodeError)"

definition sample_parse :: "string \<Rightarrow> pyval" where
  "sample_parse s = PDict []"

definition sample_platform :: platform where
  "sample_platform =
     \<lparr>path_exists = sample_exists,
      path_suffix = sample_suffix,
      read_text = sample_read_text,
      json_loads = sample_json_loads\<rparr>"

text \<open>
  A second index, holding one point whose content has 600 characters and whose payload has
  no \<open>type\<close>.
\<close>

definition sample_long_points :: "scored_point list" where
  "sample_long_points =
     [\<lparr>sp_id = 0, sp_score = Finite False 7 (- 3),
       sp_payload =
         [(''id'', PStr ''p9''), (''source'', PStr ''W''),
          (''title'', PStr ''Agave''),
          (''content'', PStr (replicate 600 CHR ''a'')),
          (''metadata'', PDict [])]\<rparr>]"

definition sample_long_client_search :: "string \<Rightarrow> vector \<Rightarrow> int \<Rightarrow> error + scored_point list" where
  "sample_long_client_search name v limit = Inr (take (nat limit) sample_long_points)"

definition sample_long_store :: vector_store where
  "sample_long_store =
     \<lparr>collection_name = ''arizona_plants'',
      encode = sample_encode,
      encode_batch = sample_encode_batch,
      client_search = sample_long_client_search,
      client_upsert = sample_client_upsert\<rparr>"

definition sample_results :: "search_result list" where
  "sample_results = map format_point (take 2 sample_points)"

section \<open>Properties of ingestion\<close>

subsection \<open>Text prepared for embedding\<close>

lemma prepare_text_take:
  "prepare_text_for_embedding str_of doc =
     take 5000 (py_str str_of (dict_get doc ''title'' (PStr '''')) @ ''\<newline>\<newline>'' @
                py_str str_of (dict_get doc ''content'' (PStr '''')))"
  by (simp add: prepare_text_for_embedding_def Let_def)

lemma prepare_text_full: "prepare_text_for_embedding str_of doc = take 5000 (full_text str_of doc)"
  by (simp add: prepare_text_take full_text_def)

text \<open>
  Claim C3, as the code has it: a document whose content is a string of 6000 characters
  is embedded as a text of exactly 5000 characters, whatever its title, because the cut
  is applied to the combined string of title, blank line and content.
\<close>

theorem prepare_text_content_6000:
  assumes "dict_get doc ''content'' (PStr '''') = PStr c"
    and "length c = 6000"
  shows "length (prepare_text_for_embedding str_of doc) = 5000"
  using assms by (simp add: prepare_text_take)

theorem prepare_text_content_6000_witness:
  "dict_get [(''title'', PStr ''Saguaro''), (''content'', PStr (replicate 6000 CHR ''a''))]
       ''content'' (PStr '''') = PStr (replicate 6000 CHR ''a'')
   \<and> length (replicate 6000 CHR ''a'') = 6000
   \<and> length (prepare_text_for_embedding sample_str_of
         [(''title'', PStr ''Saguaro''), (''content'', PStr (replicate 6000 CHR ''a''))]) = 5000"
proof -
  have g: "dict_get [(''title'', PStr ''Saguaro''), (''content'', PStr (replicate 6000 CHR ''a''))]
       ''content'' (PStr '''') = PStr (replicate 6000 CHR ''a'')"
    by (simp add: dict_get_def)
  have l: "length (replicate 6000 CHR ''a'') = 6000" by simp
  show ?thesis using g l prepare_text_content_6000 [OF g l, of sample_str_of] by simp
qed

text \<open>
  With the length the specification gives, 5000 + len(title) + 2, the claim fails for the
  title \<open>Saguaro\<close>: the text has 5000 characters, not 5009.
\<close>

theorem prepare_text_content_6000_counterexample:
  "length (prepare_text_for_embedding sample_str_of
      [(''title'', PStr ''Saguaro''), (''content'', PStr (replicate 6000 CHR ''a''))])
   \<noteq> 5000 + length ''Saguaro'' + 2"
  by (simp add: prepare_text_take dict_get_def)

text \<open>
  Claim C4: for every document the text prepared for embedding is the title, a blank
  line and the content, cut to its first 5000 characters. The function returns a string
  for every document (it has no error to return), the result is a prefix of the combined
  string and is the combined string itself when that fits, and the list of texts has one
  text for each document.
\<close>

theorem prepare_text_prefix_cut:
  "prepare_text_for_embedding str_of doc = take 5000 (full_text str_of doc)
   \<and> length (prepare_text_for_embedding str_of doc) \<le> 5000
   \<and> full_text str_of doc = prepare_text_for_embedding str_of doc @ drop 5000 (full_text str_of doc)
   \<and> (length (full_text str_of doc) \<le> 5000 \<longrightarrow> prepare_text_for_embedding str_of doc = full_text str_of doc)
   \<and> length (map (prepare_text_for_embedding str_of) docs) = length docs"
  by (simp add: prepare_text_full)

theorem prepare_text_prefix_cut_witness:
  "length (full_text sample_str_of (sample_documents ! 0)) \<le> 5000
   \<and> prepare_text_for_embedding sample_str_of (sample_documents ! 0)
       = ''Saguaro\<newline>\<newline>Carnegiea gigantea tolerates extreme heat''
   \<and> length (map (prepare_text_for_embedding sample_str_of) sample_documents) = 3"
proof -
  note t = prepare_text_prefix_cut [of sample_str_of "sample_documents ! 0" sample_documents]
  have f: "full_text sample_str_of (sample_documents ! 0)
      = ''Saguaro\<newline>\<newline>Carnegiea gigantea tolerates extreme heat''"
    by (simp add: full_text_def sample_documents_def dict_get_def)
  have h: "length (full_text sample_str_of (sample_documents ! 0)) \<le> 5000"
    by (simp add: f)
  from t h have "prepare_text_for_embedding sample_str_of (sample_documents ! 0)
      = full_text sample_str_of (sample_documents ! 0)"
    by blast
  moreover from t have "length (map (prepare_text_for_embedding sample_str_of) sample_documents)
      = length sample_documents"
    by blast
  ultimately show ?thesis using h f by (simp add: sample_documents_def)
qed

subsection \<open>Batch embedding\<close>

lemma embed_batches_pointwise:
  "(\<forall>ts. enc ts = Inr (map f ts)) \<Longrightarrow> 0 < batch_size \<Longrightarrow>
   embed_batches enc texts batch_size i acc = Inr (acc @ map f (drop i texts))"
proof (induction enc texts batch_size i acc rule: embed_batches.induct)
  case (1 enc texts batch_size i acc)
  show ?case
  proof (cases "i < length texts")
    case True
    have e: "enc (take batch_size (drop i texts)) = Inr (map f (take batch_size (drop i texts)))"
      using "1.prems"(1) by simp
    have IH: "embed_batches enc texts batch_size (i + batch_size) (acc @ map f (take batch_size (drop i texts)))
        = Inr ((acc @ map f (take batch_size (drop i texts))) @ map f (drop (i + batch_size) texts))"
    proof (rule "1.IH" [OF _ e "1.prems"])
      show "i < length texts \<and> 0 < batch_size" using True "1.prems"(2) by simp
    qed
    have d: "drop (i + batch_size) texts = drop batch_size (drop i texts)"
      by (simp add: add.commute)
    have "map f (take batch_size (drop i texts)) @ map f (drop (i + batch_size) texts) = map f (drop i texts)"
      unfolding d map_append [symmetric] append_take_drop_id ..
    then show ?thesis
      using True "1.prems"(2) e IH by (simp add: embed_batches.simps [of enc texts batch_size i acc])
  next
    case False
    then show ?thesis by (simp add: embed_batches.simps [of enc texts batch_size i acc])
  qed
qed

lemma zip3_map:
  "map g (zip xs (zip (map a xs) (map b xs))) = map (\<lambda>x. g (x, a x, b x)) xs"
  by (induction xs) simp_all

lemma create_embeddings_pointwise:
  assumes enc: "\<forall>ts. encode_batch vs ts = Inr (map f ts)" and bs: "1 \<le> batch_size"
  shows "create_embeddings vs str_of documents batch_size =
           Inr (map (\<lambda>doc. \<lparr>document = doc,
                             embedding = f (prepare_text_for_embedding str_of doc),
                             embedded_text = prepare_text_for_embedding str_of doc\<rparr>) documents)"
proof -
  have pos: "0 < nat batch_size" using bs by simp
  have "embed_batches (encode_batch vs) (map (prepare_text_for_embedding str_of) documents)
          (nat batch_size) 0 []
      = Inr (map f (map (prepare_text_for_embedding str_of) documents))"
    using embed_batches_pointwise [OF enc pos, of "map (prepare_text_for_embedding str_of) documents" 0 "[]"]
    by simp
  then show ?thesis
    using bs by (simp add: create_embeddings_def Let_def zip3_map)
qed

text \<open>
  Claim C9: with an embedding model that embeds a batch text by text (it returns
  \<open>map f\<close> of the batch), and a batch size of at least 1, \<open>create_embeddings\<close> returns
  one entry for each document, in input order, each pairing the document with the
  embedding of its own text; the result is the same for every batch size, in particular
  the same as for batches of one, and as long as the input.
\<close>

theorem create_embeddings_batch_independent:
  assumes enc: "\<forall>ts. encode_batch vs ts = Inr (map f ts)" and bs: "1 \<le> batch_size"
  shows "create_embeddings vs str_of documents batch_size =
           Inr (map (\<lambda>doc. \<lparr>document = doc,
                             embedding = f (prepare_text_for_embedding str_of doc),
                             embedded_text = prepare_text_for_embedding str_of doc\<rparr>) documents)
       \<and> create_embeddings vs str_of documents batch_size = create_embeddings vs str_of documents 1
       \<and> (\<exists>r. create_embeddings vs str_of documents batch_size = Inr r
              \<and> length r = length documents \<and> map document r = documents)"
  using create_embeddings_pointwise [OF enc bs, of str_of documents]
    create_embeddings_pointwise [OF enc, of 1 str_of documents]
  by (simp add: comp_def)

lemma sample_texts:
  "map (prepare_text_for_embedding sample_str_of) sample_documents =
     [''Saguaro\<newline>\<newline>Carnegiea gigantea tolerates extreme heat'',
      ''Ocotillo\<newline>\<newline>Fouquieria splendens leafs out after rain'',
      ''Palo verde\<newline>\<newline>'']"
  by (simp add: sample_documents_def prepare_text_take dict_get_def)

theorem create_embeddings_batch_independent_witness:
  "(\<forall>ts. encode_batch sample_store ts = Inr (map sample_vector ts))
   \<and> (1::int) \<le> 2
   \<and> create_embeddings sample_store sample_str_of sample_documents 2 = Inr sample_embedded
   \<and> create_embeddings sample_store sample_str_of sample_documents 2
       = create_embeddings sample_store sample_str_of sample_documents 1
   \<and> length sample_embedded = length sample_documents"
proof -
  have h1: "\<forall>ts. encode_batch sample_store ts = Inr (map sample_vector ts)"
    by (simp add: sample_store_def sample_encode_batch_def)
  have h2: "(1::int) \<le> 2" by simp
  note t = create_embeddings_batch_independent [OF h1 h2, of sample_str_of sample_documents]
  have e: "map (\<lambda>doc. \<lparr>document = doc,
              embedding = sample_vector (prepare_text_for_embedding sample_str_of doc),
              embedded_text = prepare_text_for_embedding sample_str_of doc\<rparr>) sample_documents
      = sample_embedded"
    using sample_texts by (simp add: sample_documents_def sample_embedded_def sample_vector_def)
  from t have a: "create_embeddings sample_store sample_str_of sample_documents 2 = Inr sample_embedded"
    unfolding e by blast
  from t have b: "create_embeddings sample_store sample_str_of sample_documents 2
       = create_embeddings sample_store sample_str_of sample_documents 1"
    by blast
  have c: "length sample_embedded = length sample_documents"
    by (simp add: sample_embedded_def sample_documents_def)
  show ?thesis using h1 h2 a b c by blast
qed

subsection \<open>Upload\<close>

lemma uploaded_append: "uploaded (xs @ ys) = uploaded xs @ uploaded ys"
  by (simp add: uploaded_def)

lemma take_length_take: "ys = take n xs \<Longrightarrow> ys = take (length ys) xs"
  by (simp add: min_def)

lemma upsert_batches_prefix:
  "0 < batch_size \<Longrightarrow> uploaded calls = take i points \<Longrightarrow>
   upsert_batches vs points batch_size i calls = (calls', err) \<Longrightarrow>
   uploaded calls' = take (length (uploaded calls')) points \<and> (err = None \<longrightarrow> uploaded calls' = points)"
proof (induction vs points batch_size i calls rule: upsert_batches.induct)
  case (1 vs points batch_size i calls)
  show ?case
  proof (cases "i < length points")
    case True
    define batch where "batch = take batch_size (drop i points)"
    define calls2 where "calls2 = calls @ [Upsert (collection_name vs) batch]"
    have up2: "uploaded calls2 = take (i + batch_size) points"
      using "1.prems"(2) by (simp add: calls2_def batch_def uploaded_append uploaded_def take_add)
    show ?thesis
    proof (cases "client_upsert vs (collection_name vs) batch")
      case None
      have run: "upsert_batches vs points batch_size (i + batch_size) calls2 = (calls', err)"
        using "1.prems"(3) True "1.prems"(1) None
        by (simp add: upsert_batches.simps [of vs points batch_size i calls] Let_def batch_def calls2_def)
      show ?thesis
      proof (rule "1.IH" [OF _ batch_def calls2_def _ "1.prems"(1) up2 run])
        show "i < length points \<and> 0 < batch_size" using True "1.prems"(1) by simp
        show "client_upsert vs (collection_name vs) batch = None" by (rule None)
      qed
    next
      case (Some e)
      have "calls' = calls2" "err = Some e"
        using "1.prems"(3) True "1.prems"(1) Some
        by (simp_all add: upsert_batches.simps [of vs points batch_size i calls] Let_def batch_def calls2_def)
      then show ?thesis using take_length_take [OF up2] by simp
    qed
  next
    case False
    then have "calls' = calls" "err = None"
      using "1.prems"(3) by (simp_all add: upsert_batches.simps [of vs points batch_size i calls])
    then show ?thesis using take_length_take [OF "1.prems"(2)] "1.prems"(2) False by simp
  qed
qed

lemma create_embeddings_documents:
  assumes "create_embeddings vs str_of documents batch_size = Inr items"
  shows "length items \<le> length documents"
    and "j < length items \<Longrightarrow> document (items ! j) = documents ! j"
    and "j < length items \<Longrightarrow>
           embedded_text (items ! j) = prepare_text_for_embedding str_of (documents ! j)"
proof -
  obtain embs where items: "items =
      map (\<lambda>(doc, emb, txt). \<lparr>document = doc, embedding = emb, embedded_text = txt\<rparr>)
        (zip documents (zip embs (map (prepare_text_for_embedding str_of) documents)))"
    using assms by (auto simp: create_embeddings_def Let_def split: if_splits sum.splits)
  show "length items \<le> length documents" by (simp add: items)
  show "document (items ! j) = documents ! j" if "j < length items"
    using that by (simp add: items)
  show "embedded_text (items ! j) = prepare_text_for_embedding str_of (documents ! j)"
    if "j < length items"
    using that by (simp add: items)
qed

lemma upload_points:
  assumes "upload_to_qdrant vs items = (calls, err)"
  shows "length (uploaded calls) \<le> length items"
    and "err = None \<Longrightarrow> length (uploaded calls) = length items"
    and "j < length (uploaded calls) \<Longrightarrow> uploaded calls ! j = point_of j (items ! j)"
proof -
  define points where "points = map (\<lambda>(idx, item). point_of idx item) (enumerate 0 items)"
  have len: "length points = length items" by (simp add: points_def)
  have nth: "points ! j = point_of j (items ! j)" if "j < length items" for j
    using that by (simp add: points_def nth_enumerate_eq)
  have run: "upsert_batches vs points 100 0 [] = (calls, err)"
    using assms by (simp add: upload_to_qdrant_def points_def Let_def)
  have pre: "uploaded calls = take (length (uploaded calls)) points"
    and full: "err = None \<longrightarrow> uploaded calls = points"
    using upsert_batches_prefix [OF _ _ run] by (simp_all add: uploaded_def)
  have "length (uploaded calls) = min (length (uploaded calls)) (length points)"
    using arg_cong [OF pre, of length] by (simp only: length_take)
  then show l: "length (uploaded calls) \<le> length items"
    using len by arith
  show "length (uploaded calls) = length items" if "err = None"
    using that full len by simp
  show "uploaded calls ! j = point_of j (items ! j)" if "j < length (uploaded calls)"
  proof -
    have "uploaded calls ! j = points ! j"
      using that pre by (metis nth_take)
    then show ?thesis using nth that l by simp
  qed
qed

text \<open>
  Claim C8: when \<open>create_embeddings\<close> has paired the documents of a run with their
  vectors and \<open>upload_to_qdrant\<close> has sent them, the point at position \<open>j\<close> among
  the points sent has \<open>point_id = j\<close>, carries the vector of item \<open>j\<close> and the payload
  built from the document at position \<open>j\<close> of the run's document list. If no upsert
  failed, every item has been sent.
\<close>

theorem upload_point_ids:
  assumes ce: "create_embeddings vs str_of documents batch_size = Inr items"
    and up: "upload_to_qdrant vs items = (calls, err)"
  shows "length (uploaded calls) \<le> length documents
       \<and> (err = None \<longrightarrow> length (uploaded calls) = length items)
       \<and> (\<forall>j < length (uploaded calls).
            point_id (uploaded calls ! j) = j
          \<and> point_vector (uploaded calls ! j) = embedding (items ! j)
          \<and> document (items ! j) = documents ! j
          \<and> uploaded calls ! j = point_of j (items ! j))"
proof -
  have a: "length (uploaded calls) \<le> length documents"
    using upload_points(1) [OF up] create_embeddings_documents(1) [OF ce] by simp
  have b: "err = None \<longrightarrow> length (uploaded calls) = length items"
    using upload_points(2) [OF up] by simp
  have c: "point_id (uploaded calls ! j) = j
          \<and> point_vector (uploaded calls ! j) = embedding (items ! j)
          \<and> document (items ! j) = documents ! j
          \<and> uploaded calls ! j = point_of j (items ! j)" if "j < length (uploaded calls)" for j
  proof -
    have p: "uploaded calls ! j = point_of j (items ! j)"
      using upload_points(3) [OF up that] .
    have "j < length items" using that upload_points(1) [OF up] by simp
    then have d: "document (items ! j) = documents ! j"
      using create_embeddings_documents(2) [OF ce] by simp
    show ?thesis using p d by (simp add: point_of_def Let_def)
  qed
  show ?thesis using a b c by blast
qed

lemma sample_create_embeddings:
  "create_embeddings sample_store sample_str_of sample_documents 32 = Inr sample_embedded"
proof -
  have h1: "\<forall>ts. encode_batch sample_store ts = Inr (map sample_vector ts)"
    by (simp add: sample_store_def sample_encode_batch_def)
  have "create_embeddings sample_store sample_str_of sample_documents 32 =
      Inr (map (\<lambda>doc. \<lparr>document = doc,
              embedding = sample_vector (prepare_text_for_embedding sample_str_of doc),
              embedded_text = prepare_text_for_embedding sample_str_of doc\<rparr>) sample_documents)"
    by (rule create_embeddings_pointwise [OF h1]) simp
  moreover have "map (\<lambda>doc. \<lparr>document = doc,
              embedding = sample_vector (prepare_text_for_embedding sample_str_of doc),
              embedded_text = prepare_text_for_embedding sample_str_of doc\<rparr>) sample_documents
      = sample_embedded"
    using sample_texts by (simp add: sample_documents_def sample_embedded_def sample_vector_def)
  ultimately show ?thesis by simp
qed

lemma sample_upload:
  "upload_to_qdrant sample_store sample_embedded = ([Upsert ''arizona_plants'' sample_uploaded], None)"
  by (simp add: upload_to_qdrant_def Let_def enumerate_eq_zip upt_rec [of 0] upt_rec [of 1]
      upt_rec [of 2] upsert_batches.simps sample_embedded_def sample_store_def
      sample_client_upsert_def point_of_def sample_documents_def dict_get_def sample_uploaded_def)

theorem upload_point_ids_witness:
  "create_embeddings sample_store sample_str_of sample_documents 32 = Inr sample_embedded
   \<and> upload_to_qdrant sample_store sample_embedded = ([Upsert ''arizona_plants'' sample_uploaded], None)
   \<and> length (uploaded [Upsert ''arizona_plants'' sample_uploaded]) = 3
   \<and> point_id (uploaded [Upsert ''arizona_plants'' sample_uploaded] ! 2) = 2
   \<and> point_vector (uploaded [Upsert ''arizona_plants'' sample_uploaded] ! 2) = embedding (sample_embedded ! 2)
   \<and> document (sample_embedded ! 2) = sample_documents ! 2"
proof -
  note t = upload_point_ids [OF sample_create_embeddings sample_upload]
  have l: "length (uploaded [Upsert ''arizona_plants'' sample_uploaded]) = 3"
    by (simp add: uploaded_def sample_uploaded_def)
  then have j: "2 < length (uploaded [Upsert ''arizona_plants'' sample_uploaded])" by simp
  from t j have "point_id (uploaded [Upsert ''arizona_plants'' sample_uploaded] ! 2) = 2
      \<and> point_vector (uploaded [Upsert ''arizona_plants'' sample_uploaded] ! 2) = embedding (sample_embedded ! 2)
      \<and> document (sample_embedded ! 2) = sample_documents ! 2"
    by blast
  then show ?thesis using sample_create_embeddings sample_upload l by blast
qed

subsection \<open>Loading the dataset\<close>

lemma loads_lines_all:
  "(\<forall>line \<in> set ls. loads line = Inr (parse line)) \<Longrightarrow>
   loads_lines loads ls acc = Inr (acc @ map parse ls)"
  by (induction ls arbitrary: acc) simp_all

lemma loads_lines_fail:
  "line \<in> set ls \<Longrightarrow> loads line = Inl e \<Longrightarrow> \<exists>e'. loads_lines loads ls acc = Inl e'"
  by (induction ls arbitrary: acc) (auto split: sum.splits)

text \<open>
  Claim C7: \<open>load_dataset\<close> fails with \<open>FileNotFoundError\<close> for a missing file; for an
  existing file whose suffix is neither \<open>.json\<close> nor \<open>.jsonl\<close> it fails with
  \<open>ValueError\<close> (unsupported format); a \<open>.json\<close> file is parsed as one JSON document,
  so a JSON array gives the list of its elements; a \<open>.jsonl\<close> file is parsed line by
  line, giving the list of the parsed lines; malformed content fails with the parser's
  error; nothing but these two suffixes is ever loaded; and the not-found error is
  neither the format error nor the parser's error.
\<close>

theorem load_dataset_formats:
  "(\<not> path_exists os p \<longrightarrow>
      load_dataset os p = Inl (FileNotFoundError (''Dataset not found: '' @ p)))
 \<and> (path_exists os p \<and> path_suffix os p \<noteq> ''.json'' \<and> path_suffix os p \<noteq> ''.jsonl'' \<longrightarrow>
      load_dataset os p = Inl (ValueError (''Unsupported file format: '' @ path_suffix os p)))
 \<and> (path_exists os p \<and> path_suffix os p = ''.json'' \<and> read_text os p = Inr txt
        \<and> json_loads os txt = Inr (PList docs) \<longrightarrow>
      load_dataset os p = Inr (PList docs))
 \<and> (path_exists os p \<and> path_suffix os p = ''.json'' \<and> read_text os p = Inr txt
        \<and> json_loads os txt = Inl e \<longrightarrow>
      load_dataset os p = Inl e)
 \<and> (path_exists os p \<and> path_suffix os p = ''.jsonl'' \<and> read_text os p = Inr txt
        \<and> (\<forall>line \<in> set (file_lines [] txt). json_loads os line = Inr (parse line)) \<longrightarrow>
      load_dataset os p = Inr (PList (map parse (file_lines [] txt))))
 \<and> (path_exists os p \<and> path_suffix os p = ''.jsonl'' \<and> read_text os p = Inr txt
        \<and> (\<exists>line \<in> set (file_lines [] txt). \<exists>e. json_loads os line = Inl e) \<longrightarrow>
      (\<exists>e. load_dataset os p = Inl e))
 \<and> ((\<exists>v. load_dataset os p = Inr v) \<longrightarrow>
      path_exists os p \<and> (path_suffix os p = ''.json'' \<or> path_suffix os p = ''.jsonl''))
 \<and> (\<forall>m m'. FileNotFoundError m \<noteq> ValueError m' \<and> FileNotFoundError m \<noteq> JSONDecodeError)"
proof (intro conjI impI)
  show "load_dataset os p = Inl (FileNotFoundError (''Dataset not found: '' @ p))"
    if "\<not> path_exists os p"
    using that by (simp add: load_dataset_def)
  show "load_dataset os p = Inl (ValueError (''Unsupported file format: '' @ path_suffix os p))"
    if "path_exists os p \<and> path_suffix os p \<noteq> ''.json'' \<and> path_suffix os p \<noteq> ''.jsonl''"
    using that by (simp add: load_dataset_def)
  show "load_dataset os p = Inr (PList docs)"
    if "path_exists os p \<and> path_suffix os p = ''.json'' \<and> read_text os p = Inr txt
        \<and> json_loads os txt = Inr (PList docs)"
    using that by (simp add: load_dataset_def)
  show "load_dataset os p = Inl e"
    if "path_exists os p \<and> path_suffix os p = ''.json'' \<and> read_text os p = Inr txt
        \<and> json_loads os txt = Inl e"
    using that by (simp add: load_dataset_def)
  show "load_dataset os p = Inr (PList (map parse (file_lines [] txt)))"
    if "path_exists os p \<and> path_suffix os p = ''.jsonl'' \<and> read_text os p = Inr txt
        \<and> (\<forall>line \<in> set (file_lines [] txt). json_loads os line = Inr (parse line))"
  proof -
    have "loads_lines (json_loads os) (file_lines [] txt) [] = Inr (map parse (file_lines [] txt))"
      using that loads_lines_all [of "file_lines [] txt" "json_loads os" parse "[]"] by simp
    then show ?thesis using that by (simp add: load_dataset_def)
  qed
  show "\<exists>e. load_dataset os p = Inl e"
    if h: "path_exists os p \<and> path_suffix os p = ''.jsonl'' \<and> read_text os p = Inr txt
        \<and> (\<exists>line \<in> set (file_lines [] txt). \<exists>e. json_loads os line = Inl e)"
  proof -
    obtain e' where "loads_lines (json_loads os) (file_lines [] txt) [] = Inl e'"
      using h loads_lines_fail by blast
    then show ?thesis using h by (simp add: load_dataset_def)
  qed
  show "path_exists os p" if "\<exists>v. load_dataset os p = Inr v"
    using that by (auto simp: load_dataset_def split: if_splits)
  show "path_suffix os p = ''.json'' \<or> path_suffix os p = ''.jsonl''"
    if "\<exists>v. load_dataset os p = Inr v"
    using that by (auto simp: load_dataset_def split: if_splits)
  show "\<forall>m m'. FileNotFoundError m \<noteq> ValueError m' \<and> FileNotFoundError m \<noteq> JSONDecodeError"
    by simp
qed

theorem load_dataset_formats_witness:
  "\<not> path_exists sample_platform ''missing.jsonl''
   \<and> load_dataset sample_platform ''missing.jsonl''
       = Inl (FileNotFoundError ''Dataset not found: missing.jsonl'')
   \<and> path_exists sample_platform ''plants.csv'' \<and> path_suffix sample_platform ''plants.csv'' = ''.csv''
   \<and> load_dataset sample_platform ''plants.csv''
       = Inl (ValueError ''Unsupported file format: .csv'')
   \<and> path_exists sample_platform ''plants.json'' \<and> path_suffix sample_platform ''plants.json'' = ''.json''
   \<and> read_text sample_platform ''plants.json'' = Inr ''[{}]''
   \<and> json_loads sample_platform ''[{}]'' = Inr (PList [PDict []])
   \<and> load_dataset sample_platform ''plants.json'' = Inr (PList [PDict []])
   \<and> path_exists sample_platform ''broken.json'' \<and> path_suffix sample_platform ''broken.json'' = ''.json''
   \<and> read_text sample_platform ''broken.json'' = Inr ''[{''
   \<and> json_loads sample_platform ''[{'' = Inl JSONDecodeError
   \<and> load_dataset sample_platform ''broken.json'' = Inl JSONDecodeError
   \<and> path_exists sample_platform ''plants.jsonl'' \<and> path_suffix sample_platform ''plants.jsonl'' = ''.jsonl''
   \<and> read_text sample_platform ''plants.jsonl'' = Inr ''{}\<newline>{}\<newline>''
   \<and> file_lines [] ''{}\<newline>{}\<newline>'' = [''{}\<newline>'', ''{}\<newline>'']
   \<and> json_loads sample_platform ''{}\<newline>'' = Inr (sample_parse ''{}\<newline>'')
   \<and> load_dataset sample_platform ''plants.jsonl'' = Inr (PList [PDict [], PDict []])
   \<and> path_exists sample_platform ''broken.jsonl'' \<and> path_suffix sample_platform ''broken.jsonl'' = ''.jsonl''
   \<and> read_text sample_platform ''broken.jsonl'' = Inr ''{}\<newline>{\<newline>''
   \<and> file_lines [] ''{}\<newline>{\<newline>'' = [''{}\<newline>'', ''{\<newline>'']
   \<and> json_loads sample_platform ''{\<newline>'' = Inl JSONDecodeError
   \<and> (\<exists>e. load_dataset sample_platform ''broken.jsonl'' = Inl e)"
proof -
  have missing: "\<not> path_exists sample_platform ''missing.jsonl''"
    by (simp add: sample_platform_def sample_exists_def)
  have csv: "path_exists sample_platform ''plants.csv''"
    "path_suffix sample_platform ''plants.csv'' = ''.csv''"
    by (simp_all add: sample_platform_def sample_exists_def sample_suffix_def not_dot_def)
  have json: "path_exists sample_platform ''plants.json''"
    "path_suffix sample_platform ''plants.json'' = ''.json''"
    "read_text sample_platform ''plants.json'' = Inr ''[{}]''"
    "json_loads sample_platform ''[{}]'' = Inr (PList [PDict []])"
    by (simp_all add: sample_platform_def sample_exists_def sample_suffix_def not_dot_def
        sample_read_text_def sample_json_loads_def)
  have bjson: "path_exists sample_platform ''broken.json''"
    "path_suffix sample_platform ''broken.json'' = ''.json''"
    "read_text sample_platform ''broken.json'' = Inr ''[{''"
    "json_loads sample_platform ''[{'' = Inl JSONDecodeError"
    by (simp_all add: sample_platform_def sample_exists_def sample_suffix_def not_dot_def
        sample_read_text_def sample_json_loads_def)
  have jsonl: "path_exists sample_platform ''plants.jsonl''"
    "path_suffix sample_platform ''plants.jsonl'' = ''.jsonl''"
    "read_text sample_platform ''plants.jsonl'' = Inr ''{}\<newline>{}\<newline>''"
    "file_lines [] ''{}\<newline>{}\<newline>'' = [''{}\<newline>'', ''{}\<newline>'']"
    "json_loads sample_platform ''{}\<newline>'' = Inr (sample_parse ''{}\<newline>'')"
    by (simp_all add: sample_platform_def sample_exists_def sample_suffix_def not_dot_def
        sample_read_text_def sample_json_loads_def sample_parse_def)
  have bjsonl: "path_exists sample_platform ''broken.jsonl''"
    "path_suffix sample_platform ''broken.jsonl'' = ''.jsonl''"
    "read_text sample_platform ''broken.jsonl'' = Inr ''{}\<newline>{\<newline>''"
    "file_lines [] ''{}\<newline>{\<newline>'' = [''{}\<newline>'', ''{\<newline>'']"
    "json_loads sample_platform ''{\<newline>'' = Inl JSONDecodeError"
    by (simp_all add: sample_platform_def sample_exists_def sample_suffix_def not_dot_def
        sample_read_text_def sample_json_loads_def)
  have r1: "load_dataset sample_platform ''missing.jsonl''
       = Inl (FileNotFoundError ''Dataset not found: missing.jsonl'')"
    using load_dataset_formats [of sample_platform "''missing.jsonl''"] missing by simp
  have r2: "load_dataset sample_platform ''plants.csv''
       = Inl (ValueError ''Unsupported file format: .csv'')"
    using load_dataset_formats [of sample_platform "''plants.csv''"] csv by simp
  have r3: "load_dataset sample_platform ''plants.json'' = Inr (PList [PDict []])"
    using load_dataset_formats [of sample_platform "''plants.json''" "''[{}]''" "[PDict []]"] json
    by blast
  have r4: "load_dataset sample_platform ''broken.json'' = Inl JSONDecodeError"
    using load_dataset_formats [of sample_platform "''broken.json''" "''[{''" _ JSONDecodeError] bjson
    by blast
  have all: "\<forall>line \<in> set (file_lines [] ''{}\<newline>{}\<newline>'').
      json_loads sample_platform line = Inr (sample_parse line)"
    using jsonl(5) by (simp add: jsonl(4))
  have r5: "load_dataset sample_platform ''plants.jsonl'' = Inr (PList [PDict [], PDict []])"
  proof -
    have "load_dataset sample_platform ''plants.jsonl''
        = Inr (PList (map sample_parse (file_lines [] ''{}\<newline>{}\<newline>'')))"
      using load_dataset_formats [of sample_platform "''plants.jsonl''" "''{}\<newline>{}\<newline>''" _ _ sample_parse]
        jsonl(1,2,3) all by blast
    then show ?thesis by (simp add: jsonl(4) sample_parse_def)
  qed
  have ex: "\<exists>line \<in> set (file_lines [] ''{}\<newline>{\<newline>''). \<exists>e. json_loads sample_platform line = Inl e"
    using bjsonl(5) by (simp add: bjsonl(4))
  have r6: "\<exists>e. load_dataset sample_platform ''broken.jsonl'' = Inl e"
    using load_dataset_formats [of sample_platform "''broken.jsonl''" "''{}\<newline>{\<newline>''"]
      bjsonl(1,2,3) ex by blast
  show ?thesis
    using missing r1 csv r2 json r3 bjson r4 jsonl r5 bjsonl r6 by blast
qed

subsection \<open>Search of the ingestion module\<close>

lemma format_result_content:
  "has_content p \<Longrightarrow> \<exists>r. format_result p = Inr r"
  "\<not> has_content p \<Longrightarrow> format_result p = Inl TypeError"
  by (auto simp: has_content_def format_result_def split: pyval.splits)

lemma format_results_iff:
  "format_results pts acc =
     (if list_all has_content pts then format_results pts acc else Inl TypeError)
   \<and> (list_all has_content pts \<longrightarrow> (\<exists>rs. format_results pts acc = Inr rs))"
proof (induction pts arbitrary: acc)
  case Nil
  then show ?case by simp
next
  case (Cons p pts)
  show ?case
  proof (cases "has_content p")
    case True
    then obtain r where "format_result p = Inr r" using format_result_content(1) by blast
    then show ?thesis using True Cons.IH [of "acc @ [r]"] by auto
  next
    case False
    then show ?thesis using format_result_content(2) by simp
  qed
qed

text \<open>
  Claim C10: once the query is embedded and the index has answered, the search of the
  ingestion module returns results exactly when the payload of every matched point holds
  a string under \<open>content\<close>; if some payload has no \<open>content\<close>, the formatting step
  raises \<open>TypeError\<close>.
\<close>

theorem ingestion_search_needs_content:
  assumes "encode vs query = Inr v"
    and "client_search vs (collection_name vs) v limit = Inr pts"
  shows "((\<exists>rs. snd (ingestion_search vs query limit) = Inr rs) \<longleftrightarrow>
            (\<forall>p \<in> set pts. \<exists>s. dict_get (sp_payload p) ''content'' PNone = PStr s))
       \<and> ((\<exists>p \<in> set pts. map_of (sp_payload p) ''content'' = None) \<longrightarrow>
            snd (ingestion_search vs query limit) = Inl TypeError)"
proof -
  have s: "snd (ingestion_search vs query limit) = format_results pts []"
    using assms by (simp add: ingestion_search_def)
  have hc: "has_content p \<longleftrightarrow> (\<exists>s. dict_get (sp_payload p) ''content'' PNone = PStr s)" for p
    by (auto simp: has_content_def split: pyval.splits)
  have all: "list_all has_content pts \<longleftrightarrow>
      (\<forall>p \<in> set pts. \<exists>s. dict_get (sp_payload p) ''content'' PNone = PStr s)"
    by (simp add: list_all_iff hc)
  have a: "(\<exists>rs. format_results pts [] = Inr rs) \<longleftrightarrow> list_all has_content pts"
    using format_results_iff [of pts "[]"] by (metis Inl_Inr_False)
  have b: "format_results pts [] = Inl TypeError"
    if h: "\<exists>p \<in> set pts. map_of (sp_payload p) ''content'' = None"
  proof -
    obtain p where "p \<in> set pts" "map_of (sp_payload p) ''content'' = None" using h by blast
    then have "\<not> has_content p" by (simp add: has_content_def dict_get_def)
    then have "\<not> list_all has_content pts" using \<open>p \<in> set pts\<close> by (auto simp: list_all_iff)
    then show ?thesis using format_results_iff [of pts "[]"] by metis
  qed
  show ?thesis using s a b all by simp
qed

theorem ingestion_search_needs_content_witness:
  "encode sample_store ''cactus'' = Inr (sample_vector ''cactus'')
   \<and> client_search sample_store (collection_name sample_store) (sample_vector ''cactus'') 3
       = Inr sample_points
   \<and> map_of (sp_payload (sample_points ! 2)) ''content'' = Some PNone
   \<and> dict_get (sp_payload (sample_points ! 2)) ''content'' PNone = PNone
   \<and> \<not> (\<exists>rs. snd (ingestion_search sample_store ''cactus'' 3) = Inr rs)"
proof -
  have h1: "encode sample_store ''cactus'' = Inr (sample_vector ''cactus'')"
    by (simp add: sample_store_def sample_encode_def)
  have h2: "client_search sample_store (collection_name sample_store) (sample_vector ''cactus'') 3
       = Inr sample_points"
    by (simp add: sample_store_def sample_client_search_def sample_points_def)
  note t = ingestion_search_needs_content [OF h1 h2]
  have m: "map_of (sp_payload (sample_points ! 2)) ''content'' = Some PNone"
    by (simp add: sample_points_def)
  have d: "dict_get (sp_payload (sample_points ! 2)) ''content'' PNone = PNone"
    by (simp add: sample_points_def dict_get_def)
  have "sample_points ! 2 \<in> set sample_points" by (simp add: sample_points_def)
  then have "\<not> (\<forall>p \<in> set sample_points. \<exists>s. dict_get (sp_payload p) ''content'' PNone = PStr s)"
    using d by (metis pyval.distinct(7))
  with t have "\<not> (\<exists>rs. snd (ingestion_search sample_store ''cactus'' 3) = Inr rs)"
    by blast
  then show ?thesis using h1 h2 m d by blast
qed

section \<open>Properties of serving\<close>

subsection \<open>Search\<close>

lemma map_result_Inr:
  "map_result f xs = Inr ys \<Longrightarrow>
   length ys = length xs \<and> (\<forall>j < length xs. f (xs ! j) = Inr (ys ! j))"
proof (induction xs arbitrary: ys)
  case Nil
  then show ?case by simp
next
  case (Cons x xs)
  from Cons.prems obtain y ys' where y: "f x = Inr y" and ys': "map_result f xs = Inr ys'"
    and ys: "ys = y # ys'"
    by (auto split: sum.splits)
  have IH: "length ys' = length xs \<and> (\<forall>j < length xs. f (xs ! j) = Inr (ys' ! j))"
    using Cons.IH [OF ys'] .
  show ?case
  proof (intro conjI allI impI)
    show "length ys = length (x # xs)" using IH ys by simp
    fix j assume "j < length (x # xs)"
    then show "f ((x # xs) ! j) = Inr (ys ! j)"
      using IH y ys by (cases j) simp_all
  qed
qed

lemma format_results_map_result:
  "format_results pts acc =
     (case map_result format_result pts of Inl e \<Rightarrow> Inl e | Inr rs \<Rightarrow> Inr (acc @ rs))"
  by (induction pts arbitrary: acc) (simp_all split: sum.splits)

lemma format_result_Inr:
  assumes "format_result p = Inr r"
  shows "res_score r = sp_score p
       \<and> (\<exists>s. dict_get (sp_payload p) ''content'' PNone = PStr s
              \<and> res_content r = PStr (take 500 s @ ''...''))
       \<and> res_id r = dict_get (sp_payload p) ''id'' PNone
       \<and> res_title r = dict_get (sp_payload p) ''title'' PNone
       \<and> res_type r = dict_get (sp_payload p) ''type'' PNone
       \<and> res_source r = dict_get (sp_payload p) ''source'' PNone
       \<and> res_metadata r = dict_get (sp_payload p) ''metadata'' PNone"
proof (cases "dict_get (sp_payload p) ''content'' PNone")
  case (PStr s)
  then show ?thesis using assms by (auto simp: format_result_def)
qed (use assms in \<open>simp_all add: format_result_def\<close>)

lemma format_point_fields:
  "res_score (format_point p) = sp_score p
   \<and> (\<forall>x. map_of (sp_payload p) ''id'' = Some x \<longrightarrow> res_id (format_point p) = x)
   \<and> (map_of (sp_payload p) ''id'' = None \<longrightarrow> res_id (format_point p) = PStr ''N/A'')
   \<and> (\<forall>x. map_of (sp_payload p) ''title'' = Some x \<longrightarrow> res_title (format_point p) = x)
   \<and> (map_of (sp_payload p) ''title'' = None \<longrightarrow> res_title (format_point p) = PStr ''Untitled'')
   \<and> (\<forall>x. map_of (sp_payload p) ''type'' = Some x \<longrightarrow> res_type (format_point p) = x)
   \<and> (map_of (sp_payload p) ''type'' = None \<longrightarrow> res_type (format_point p) = PStr [])
   \<and> (\<forall>x. map_of (sp_payload p) ''source'' = Some x \<longrightarrow> res_source (format_point p) = x)
   \<and> (map_of (sp_payload p) ''source'' = None \<longrightarrow> res_source (format_point p) = PStr [])
   \<and> (\<forall>x. map_of (sp_payload p) ''content'' = Some x \<longrightarrow> res_content (format_point p) = x)
   \<and> (map_of (sp_payload p) ''content'' = None \<longrightarrow> res_content (format_point p) = PStr [])
   \<and> (\<forall>x. map_of (sp_payload p) ''metadata'' = Some x \<longrightarrow> res_metadata (format_point p) = x)
   \<and> (map_of (sp_payload p) ''metadata'' = None \<longrightarrow> res_metadata (format_point p) = PDict [])"
  by (simp add: format_point_def dict_get_def)

lemma format_result_fields:
  assumes "format_result p = Inr r"
  shows "res_score r = sp_score p
       \<and> (\<exists>s c. dict_get (sp_payload p) ''content'' PNone = PStr s
              \<and> res_content r = PStr c
              \<and> prefix (take 500 s) c
              \<and> (500 < length s \<longrightarrow> c = take 500 s @ ''...''))
       \<and> res_id r = dict_get (sp_payload p) ''id'' PNone
       \<and> res_title r = dict_get (sp_payload p) ''title'' PNone
       \<and> res_type r = dict_get (sp_payload p) ''type'' PNone
       \<and> res_source r = dict_get (sp_payload p) ''source'' PNone
       \<and> res_metadata r = dict_get (sp_payload p) ''metadata'' PNone"
proof -
  obtain s where s: "dict_get (sp_payload p) ''content'' PNone = PStr s"
    and c: "res_content r = PStr (take 500 s @ ''...'')"
    using format_result_Inr [OF assms] by blast
  have "prefix (take 500 s) (take 500 s @ ''...'')" by simp
  then have "\<exists>s c. dict_get (sp_payload p) ''content'' PNone = PStr s
              \<and> res_content r = PStr c
              \<and> prefix (take 500 s) c
              \<and> (500 < length s \<longrightarrow> c = take 500 s @ ''...'')"
    using s c by blast
  then show ?thesis using format_result_Inr [OF assms] by blast
qed

text \<open>
  Claim C6, as the code has it: once the query is embedded and the index has answered,
  both searches have embedded the query once and queried the index once, with the
  query's vector and the limit given. The search of the serving store returns one result
  for each point, in the order of the points, with the point's score and each payload
  field as stored; a field the payload lacks is returned as \<open>N/A\<close> for the id,
  \<open>Untitled\<close> for the title, the empty string for type, source and content, and the
  empty dict for the metadata. The search of the ingestion module, if it returns results,
  returns one for each point in the same order, with score, id, title, type, source and
  metadata as stored (\<open>None\<close> for a field the payload lacks); the content returned
  begins with the first 500 characters of the stored content, and a stored content of
  more than 500 characters is returned as its first 500 characters followed by three
  dots.
\<close>

theorem search_returns_stored_fields:
  assumes enc: "encode vs query = Inr v"
    and idx: "client_search vs (collection_name vs) v limit = Inr points"
  shows "search vs query limit =
           ([Encode query, Search (collection_name vs) v limit], Inr (map format_point points))
       \<and> (\<forall>j < length points.
            res_score (map format_point points ! j) = sp_score (points ! j)
          \<and> (\<forall>x. map_of (sp_payload (points ! j)) ''id'' = Some x \<longrightarrow>
                 res_id (map format_point points ! j) = x)
          \<and> (map_of (sp_payload (points ! j)) ''id'' = None \<longrightarrow>
                 res_id (map format_point points ! j) = PStr ''N/A'')
          \<and> (\<forall>x. map_of (sp_payload (points ! j)) ''title'' = Some x \<longrightarrow>
                 res_title (map format_point points ! j) = x)
          \<and> (map_of (sp_payload (points ! j)) ''title'' = None \<longrightarrow>
                 res_title (map format_point points ! j) = PStr ''Untitled'')
          \<and> (\<forall>x. map_of (sp_payload (points ! j)) ''type'' = Some x \<longrightarrow>
                 res_type (map format_point points ! j) = x)
          \<and> (map_of (sp_payload (points ! j)) ''type'' = None \<longrightarrow>
                 res_type (map format_point points ! j) = PStr [])
          \<and> (\<forall>x. map_of (sp_payload (points ! j)) ''source'' = Some x \<longrightarrow>
                 res_source (map format_point points ! j) = x)
          \<and> (map_of (sp_payload (points ! j)) ''source'' = None \<longrightarrow>
                 res_source (map format_point points ! j) = PStr [])
          \<and> (\<forall>x. map_of (sp_payload (points ! j)) ''content'' = Some x \<longrightarrow>
                 res_content (map format_point points ! j) = x)
          \<and> (map_of (sp_payload (points ! j)) ''content'' = None \<longrightarrow>
                 res_content (map format_point points ! j) = PStr [])
          \<and> (\<forall>x. map_of (sp_payload (points ! j)) ''metadata'' = Some x \<longrightarrow>
                 res_metadata (map format_point points ! j) = x)
          \<and> (map_of (sp_payload (points ! j)) ''metadata'' = None \<longrightarrow>
                 res_metadata (map format_point points ! j) = PDict []))
       \<and> fst (ingestion_search vs query limit) = [Encode query, Search (collection_name vs) v limit]
       \<and> (\<forall>rs. snd (ingestion_search vs query limit) = Inr rs \<longrightarrow>
            length rs = length points
          \<and> (\<forall>j < length points.
                res_score (rs ! j) = sp_score (points ! j)
              \<and> (\<exists>s c. dict_get (sp_payload (points ! j)) ''content'' PNone = PStr s
                     \<and> res_content (rs ! j) = PStr c
                     \<and> prefix (take 500 s) c
                     \<and> (500 < length s \<longrightarrow> c = take 500 s @ ''...''))
              \<and> res_id (rs ! j) = dict_get (sp_payload (points ! j)) ''id'' PNone
              \<and> res_title (rs ! j) = dict_get (sp_payload (points ! j)) ''title'' PNone
              \<and> res_type (rs ! j) = dict_get (sp_payload (points ! j)) ''type'' PNone
              \<and> res_source (rs ! j) = dict_get (sp_payload (points ! j)) ''source'' PNone
              \<and> res_metadata (rs ! j) = dict_get (sp_payload (points ! j)) ''metadata'' PNone))"
proof -
  have a: "search vs query limit =
           ([Encode query, Search (collection_name vs) v limit], Inr (map format_point points))"
    using enc idx by (simp add: search_def)
  have b: "\<forall>j < length points.
            res_score (map format_point points ! j) = sp_score (points ! j)
          \<and> (\<forall>x. map_of (sp_payload (points ! j)) ''id'' = Some x \<longrightarrow>
                 res_id (map format_point points ! j) = x)
          \<and> (map_of (sp_payload (points ! j)) ''id'' = None \<longrightarrow>
                 res_id (map format_point points ! j) = PStr ''N/A'')
          \<and> (\<forall>x. map_of (sp_payload (points ! j)) ''title'' = Some x \<longrightarrow>
                 res_title (map format_point points ! j) = x)
          \<and> (map_of (sp_payload (points ! j)) ''title'' = None \<longrightarrow>
                 res_title (map format_point points ! j) = PStr ''Untitled'')
          \<and> (\<forall>x. map_of (sp_payload (points ! j)) ''type'' = Some x \<longrightarrow>
                 res_type (map format_point points ! j) = x)
          \<and> (map_of (sp_payload (points ! j)) ''type'' = None \<longrightarrow>
                 res_type (map format_point points ! j) = PStr [])
          \<and> (\<forall>x. map_of (sp_payload (points ! j)) ''source'' = Some x \<longrightarrow>
                 res_source (map format_point points ! j) = x)
          \<and> (map_of (sp_payload (points ! j)) ''source'' = None \<longrightarrow>
                 res_source (map format_point points ! j) = PStr [])
          \<and> (\<forall>x. map_of (sp_payload (points ! j)) ''content'' = Some x \<longrightarrow>
                 res_content (map format_point points ! j) = x)
          \<and> (map_of (sp_payload (points ! j)) ''content'' = None \<longrightarrow>
                 res_content (map format_point points ! j) = PStr [])
          \<and> (\<forall>x. map_of (sp_payload (points ! j)) ''metadata'' = Some x \<longrightarrow>
                 res_metadata (map format_point points ! j) = x)
          \<and> (map_of (sp_payload (points ! j)) ''metadata'' = None \<longrightarrow>
                 res_metadata (map format_point points ! j) = PDict [])"
  proof (intro allI impI)
    fix j assume "j < length points"
    then have "map format_point points ! j = format_point (points ! j)" by simp
    then show "res_score (map format_point points ! j) = sp_score (points ! j)
          \<and> (\<forall>x. map_of (sp_payload (points ! j)) ''id'' = Some x \<longrightarrow>
                 res_id (map format_point points ! j) = x)
          \<and> (map_of (sp_payload (points ! j)) ''id'' = None \<longrightarrow>
                 res_id (map format_point points ! j) = PStr ''N/A'')
          \<and> (\<forall>x. map_of (sp_payload (points ! j)) ''title'' = Some x \<longrightarrow>
                 res_title (map format_point points ! j) = x)
          \<and> (map_of (sp_payload (points ! j)) ''title'' = None \<longrightarrow>
                 res_title (map format_point points ! j) = PStr ''Untitled'')
          \<and> (\<forall>x. map_of (sp_payload (points ! j)) ''type'' = Some x \<longrightarrow>
                 res_type (map format_point points ! j) = x)
          \<and> (map_of (sp_payload (points ! j)) ''type'' = None \<longrightarrow>
                 res_type (map format_point points ! j) = PStr [])
          \<and> (\<forall>x. map_of (sp_payload (points ! j)) ''source'' = Some x \<longrightarrow>
                 res_source (map format_point points ! j) = x)
          \<and> (map_of (sp_payload (points ! j)) ''source'' = None \<longrightarrow>
                 res_source (map format_point points ! j) = PStr [])
          \<and> (\<forall>x. map_of (sp_payload (points ! j)) ''content'' = Some x \<longrightarrow>
                 res_content (map format_point points ! j) = x)
          \<and> (map_of (sp_payload (points ! j)) ''content'' = None \<longrightarrow>
                 res_content (map format_point points ! j) = PStr [])
          \<and> (\<forall>x. map_of (sp_payload (points ! j)) ''metadata'' = Some x \<longrightarrow>
                 res_metadata (map format_point points ! j) = x)
          \<and> (map_of (sp_payload (points ! j)) ''metadata'' = None \<longrightarrow>
                 res_metadata (map format_point points ! j) = PDict [])"
      using format_point_fields [of "points ! j"] by simp
  qed
  have c: "fst (ingestion_search vs query limit) = [Encode query, Search (collection_name vs) v limit]"
    using enc idx by (simp add: ingestion_search_def)
  have d: "length rs = length points
          \<and> (\<forall>j < length points.
                res_score (rs ! j) = sp_score (points ! j)
              \<and> (\<exists>s c. dict_get (sp_payload (points ! j)) ''content'' PNone = PStr s
                     \<and> res_content (rs ! j) = PStr c
                     \<and> prefix (take 500 s) c
                     \<and> (500 < length s \<longrightarrow> c = take 500 s @ ''...''))
              \<and> res_id (rs ! j) = dict_get (sp_payload (points ! j)) ''id'' PNone
              \<and> res_title (rs ! j) = dict_get (sp_payload (points ! j)) ''title'' PNone
              \<and> res_type (rs ! j) = dict_get (sp_payload (points ! j)) ''type'' PNone
              \<and> res_source (rs ! j) = dict_get (sp_payload (points ! j)) ''source'' PNone
              \<and> res_metadata (rs ! j) = dict_get (sp_payload (points ! j)) ''metadata'' PNone)"
    if r: "snd (ingestion_search vs query limit) = Inr rs" for rs
  proof -
    have "format_results points [] = Inr rs"
      using r enc idx by (simp add: ingestion_search_def)
    then have m: "map_result format_result points = Inr rs"
      by (simp add: format_results_map_result split: sum.splits)
    have l: "length rs = length points" using map_result_Inr [OF m] by simp
    have "format_result (points ! j) = Inr (rs ! j)" if "j < length points" for j
      using map_result_Inr [OF m] that by simp
    then show ?thesis using l format_result_fields by blast
  qed
  show ?thesis using a b c d by blast
qed

lemma sample_long_ingestion_search:
  "snd (ingestion_search sample_long_store ''cactus'' 1) =
     Inr [\<lparr>res_score = Finite False 7 (- 3), res_id = PStr ''p9'',
           res_title = PStr ''Agave'', res_type = PNone,
           res_source = PStr ''W'',
           res_content = PStr (replicate 500 CHR ''a'' @ ''...''),
           res_metadata = PDict []\<rparr>]"
  by (simp add: ingestion_search_def sample_long_store_def sample_encode_def
      sample_long_client_search_def sample_long_points_def format_result_def dict_get_def)

theorem search_returns_stored_fields_witness:
  "encode sample_long_store ''cactus'' = Inr (sample_vector ''cactus'')
   \<and> client_search sample_long_store (collection_name sample_long_store) (sample_vector ''cactus'') 1
       = Inr sample_long_points
   \<and> search sample_long_store ''cactus'' 1 =
       ([Encode ''cactus'', Search ''arizona_plants'' (sample_vector ''cactus'') 1],
        Inr (map format_point sample_long_points))
   \<and> map_of (sp_payload (sample_long_points ! 0)) ''content'' = Some (PStr (replicate 600 CHR ''a''))
   \<and> res_content (map format_point sample_long_points ! 0) = PStr (replicate 600 CHR ''a'')
   \<and> map_of (sp_payload (sample_long_points ! 0)) ''type'' = None
   \<and> res_type (map format_point sample_long_points ! 0) = PStr []
   \<and> fst (ingestion_search sample_long_store ''cactus'' 1) =
       [Encode ''cactus'', Search ''arizona_plants'' (sample_vector ''cactus'') 1]
   \<and> snd (ingestion_search sample_long_store ''cactus'' 1) =
       Inr [\<lparr>res_score = Finite False 7 (- 3), res_id = PStr ''p9'',
             res_title = PStr ''Agave'', res_type = PNone,
             res_source = PStr ''W'',
             res_content = PStr (replicate 500 CHR ''a'' @ ''...''),
             res_metadata = PDict []\<rparr>]
   \<and> dict_get (sp_payload (sample_long_points ! 0)) ''content'' PNone = PStr (replicate 600 CHR ''a'')
   \<and> 500 < length (replicate 600 CHR ''a'')
   \<and> res_content
        ([\<lparr>res_score = Finite False 7 (- 3), res_id = PStr ''p9'',
           res_title = PStr ''Agave'', res_type = PNone,
           res_source = PStr ''W'',
           res_content = PStr (replicate 500 CHR ''a'' @ ''...''),
           res_metadata = PDict []\<rparr>] ! 0)
       = PStr (take 500 (replicate 600 CHR ''a'') @ ''...'')"
proof -
  have h1: "encode sample_long_store ''cactus'' = Inr (sample_vector ''cactus'')"
    by (simp add: sample_long_store_def sample_encode_def)
  have h2: "client_search sample_long_store (collection_name sample_long_store)
      (sample_vector ''cactus'') 1 = Inr sample_long_points"
    by (simp add: sample_long_store_def sample_long_client_search_def sample_long_points_def)
  have n: "collection_name sample_long_store = ''arizona_plants''"
    by (simp add: sample_long_store_def)
  note t = search_returns_stored_fields [OF h1 h2]
  have j: "0 < length sample_long_points" by (simp add: sample_long_points_def)
  have m: "map_of (sp_payload (sample_long_points ! 0)) ''content'' = Some (PStr (replicate 600 CHR ''a''))"
    by (simp add: sample_long_points_def)
  have ty: "map_of (sp_payload (sample_long_points ! 0)) ''type'' = None"
    by (simp add: sample_long_points_def)
  have dg: "dict_get (sp_payload (sample_long_points ! 0)) ''content'' PNone = PStr (replicate 600 CHR ''a'')"
    by (simp add: dict_get_def m)
  from t have a: "search sample_long_store ''cactus'' 1 =
       ([Encode ''cactus'', Search ''arizona_plants'' (sample_vector ''cactus'') 1],
        Inr (map format_point sample_long_points))"
    using n by simp
  from t j m have b: "res_content (map format_point sample_long_points ! 0) = PStr (replicate 600 CHR ''a'')"
    by blast
  from t j ty have b2: "res_type (map format_point sample_long_points ! 0) = PStr []"
    by blast
  from t have c: "fst (ingestion_search sample_long_store ''cactus'' 1) =
       [Encode ''cactus'', Search ''arizona_plants'' (sample_vector ''cactus'') 1]"
    using n by simp
  have long: "500 < length (replicate 600 CHR ''a'')" by simp
  let ?rs = "[\<lparr>res_score = Finite False 7 (- 3), res_id = PStr ''p9'',
           res_title = PStr ''Agave'', res_type = PNone,
           res_source = PStr ''W'',
           res_content = PStr (replicate 500 CHR ''a'' @ ''...''),
           res_metadata = PDict []\<rparr>]"
  from t sample_long_ingestion_search j
  have "\<exists>s c. dict_get (sp_payload (sample_long_points ! 0)) ''content'' PNone = PStr s
      \<and> res_content (?rs ! 0) = PStr c
      \<and> prefix (take 500 s) c
      \<and> (500 < length s \<longrightarrow> c = take 500 s @ ''...'')"
    by blast
  then obtain s c where "PStr (replicate 600 CHR ''a'') = PStr s"
    and rc: "res_content (?rs ! 0) = PStr c"
    and "500 < length s \<longrightarrow> c = take 500 s @ ''...''"
    unfolding dg by blast
  then have "c = take 500 (replicate 600 CHR ''a'') @ ''...''"
    using long by blast
  with rc have d: "res_content (?rs ! 0) = PStr (take 500 (replicate 600 CHR ''a'') @ ''...'')"
    by blast
  show ?thesis
    using h1 h2 a m b ty b2 c sample_long_ingestion_search dg long d by blast
qed

text \<open>
  The claim as the specification words it, results returned unmodified with content equal
  to the stored content, fails for the search of the ingestion module: a stored content
  of 600 characters comes back as 500 characters and three dots.
\<close>

theorem search_returns_stored_fields_counterexample:
  "snd (ingestion_search sample_long_store ''cactus'' 1) =
     Inr [\<lparr>res_score = Finite False 7 (- 3), res_id = PStr ''p9'',
           res_title = PStr ''Agave'', res_type = PNone,
           res_source = PStr ''W'',
           res_content = PStr (replicate 500 CHR ''a'' @ ''...''),
           res_metadata = PDict []\<rparr>]
   \<and> dict_get (sp_payload (sample_long_points ! 0)) ''content'' PNone
       = PStr (replicate 600 CHR ''a'')
   \<and> length (replicate 500 CHR ''a'' @ ''...'') = 503
   \<and> length (replicate 600 CHR ''a'') = 600
   \<and> PStr (replicate 500 CHR ''a'' @ ''...'') \<noteq> PStr (replicate 600 CHR ''a'')"
proof -
  have "replicate 500 CHR ''a'' @ ''...'' \<noteq> replicate 600 CHR ''a''"
  proof
    assume "replicate 500 CHR ''a'' @ ''...'' = replicate 600 CHR ''a''"
    then have "length (replicate 500 CHR ''a'' @ ''...'') = length (replicate 600 CHR ''a'')"
      by (rule arg_cong)
    then show False by simp
  qed
  then show ?thesis
    using sample_long_ingestion_search
    by (simp add: sample_long_points_def dict_get_def)
qed

text \<open>
  Claim C5, as the code has it: neither search checks its limit. Whatever the limit,
  zero and negative included, the query is embedded and the index is queried with that
  limit unchanged. A limit outside 1..10 is refused where the request model is built: the
  endpoints \<open>/search\<close> and \<open>/query\<close> then answer with a validation error and call
  neither the embedding model nor the index.
\<close>

theorem search_forwards_limit:
  assumes enc: "encode vs query = Inr v"
  shows "fst (search vs query limit) = [Encode query, Search (collection_name vs) v limit]
       \<and> fst (ingestion_search vs query limit) = [Encode query, Search (collection_name vs) v limit]
       \<and> (k < 1 \<or> 10 < k \<longrightarrow>
            post_search st q k = ([], Inl ValidationError)
          \<and> post_query st str_of q k = ([], Inl ValidationError))"
  using enc
  by (auto simp: search_def ingestion_search_def post_search_def post_query_def QueryRequest_def
      split: sum.splits)

theorem search_forwards_limit_witness:
  "encode sample_store ''cactus'' = Inr (sample_vector ''cactus'')
   \<and> fst (search sample_store ''cactus'' 0) =
       [Encode ''cactus'', Search ''arizona_plants'' (sample_vector ''cactus'') 0]
   \<and> fst (ingestion_search sample_store ''cactus'' 0) =
       [Encode ''cactus'', Search ''arizona_plants'' (sample_vector ''cactus'') 0]
   \<and> (0::int) < 1
   \<and> post_search sample_app ''cactus'' 0 = ([], Inl ValidationError)
   \<and> post_query sample_app sample_str_of ''cactus'' 0 = ([], Inl ValidationError)"
proof -
  have h: "encode sample_store ''cactus'' = Inr (sample_vector ''cactus'')"
    by (simp add: sample_store_def sample_encode_def)
  have n: "collection_name sample_store = ''arizona_plants''"
    by (simp add: sample_store_def)
  note t = search_forwards_limit [OF h, of 0 0 sample_app "''cactus''" sample_str_of]
  show ?thesis using h t n by simp
qed

text \<open>
  The claim as the specification words it, a limit of zero or less rejected before any
  query of the index, fails: with limit 0 and with limit -3 the search queries the index.
\<close>

theorem search_forwards_limit_counterexample:
  "fst (search sample_store ''cactus'' 0) =
     [Encode ''cactus'', Search ''arizona_plants'' (sample_vector ''cactus'') 0]
   \<and> fst (search sample_store ''cactus'' (- 3)) =
     [Encode ''cactus'', Search ''arizona_plants'' (sample_vector ''cactus'') (- 3)]"
  by (simp add: search_def sample_store_def sample_encode_def sample_client_search_def)

subsection \<open>Score formatting\<close>

lemma is_digit_digit_char: "d < 10 \<Longrightarrow> is_digit (digit_char d)"
  unfolding is_digit_def digit_char_def by (rule nth_mem) simp

lemma dec_digits: "list_all is_digit (dec n)"
proof (induction n rule: dec.induct)
  case (1 n)
  show ?case
  proof (cases "n < 10")
    case True
    then show ?thesis by (simp add: dec.simps [of n] is_digit_digit_char)
  next
    case False
    then show ?thesis using "1.IH" by (simp add: dec.simps [of n] is_digit_digit_char)
  qed
qed

lemma dec_nonempty: "dec n \<noteq> []"
  by (simp add: dec.simps [of n])

lemma not_digit_punct: "\<not> is_digit CHR ''.''" "\<not> is_digit CHR ''-''"
  by (simp_all add: is_digit_def)

lemma three_decimals_shape:
  assumes "list_all is_digit ip" "ip \<noteq> []" "is_digit a" "is_digit b" "is_digit c"
  shows "three_decimals ((if sign then ''-'' else []) @ ip @ ''.'' @ [a, b, c])"
proof -
  have tw: "takeWhile is_digit (ip @ CHR ''.'' # [a, b, c]) = ip"
    using assms(1) not_digit_punct(1) by (simp add: list_all_iff takeWhile_tail)
  have dw: "dropWhile is_digit (ip @ CHR ''.'' # [a, b, c]) = CHR ''.'' # [a, b, c]"
    using assms(1) not_digit_punct(1) by (simp add: list_all_iff dropWhile_append2)
  obtain d ds where ip: "ip = d # ds" using assms(2) by (cases ip) auto
  have "is_digit d" using assms(1) ip by simp
  then have d: "d \<noteq> CHR ''-''" using not_digit_punct(2) by auto
  show ?thesis
  proof (cases sign)
    case True
    then show ?thesis using tw dw assms by (simp add: three_decimals_def)
  next
    case False
    have "three_decimals (ip @ CHR ''.'' # [a, b, c])"
      unfolding three_decimals_def Let_def
      using tw dw assms d by (simp add: ip)
    then show ?thesis using False by simp
  qed
qed

lemma format_3f_finite: "three_decimals (format_3f (Finite sign m e))"
proof -
  define n where "n = thousandths m e"
  have "three_decimals ((if sign then ''-'' else []) @ dec (n div 1000) @ ''.'' @
      [digit_char (n mod 1000 div 100), digit_char (n mod 100 div 10), digit_char (n mod 10)])"
    by (rule three_decimals_shape [OF dec_digits dec_nonempty])
       (simp_all add: is_digit_digit_char)
  then show ?thesis by (simp add: Let_def n_def)
qed

subsection \<open>The prompt\<close>

lemma context_loop_acc:
  "context_loop str_of i results acc = acc @ context_loop str_of i results []"
proof (induction results arbitrary: i acc)
  case Nil
  then show ?case by simp
next
  case (Cons r rs)
  show ?case
    using Cons.IH [of "Suc i" "acc @ document_block str_of i r"]
      Cons.IH [of "Suc i" "document_block str_of i r"]
    by (simp add: document_block_def)
qed

lemma context_loop_Cons:
  "context_loop str_of i (r # rs) [] = document_block str_of i r @ context_loop str_of (Suc i) rs []"
  using context_loop_acc [of str_of "Suc i" rs "document_block str_of i r"]
  by (simp add: document_block_def)

lemma length_context_loop: "length (context_loop str_of i results []) = 5 * length results"
proof (induction results arbitrary: i)
  case Nil
  then show ?case by simp
next
  case (Cons r rs)
  then show ?case by (simp only: context_loop_Cons) (simp add: document_block_def)
qed

lemma context_loop_nth:
  "j < length results \<Longrightarrow> k < 5 \<Longrightarrow>
   context_loop str_of i results [] ! (5 * j + k) = document_block str_of (i + j) (results ! j) ! k"
proof (induction results arbitrary: i j)
  case Nil
  then show ?case by simp
next
  case (Cons r rs)
  have len: "length (document_block str_of i r) = 5" by (simp add: document_block_def)
  show ?case
  proof (cases j)
    case 0
    then show ?thesis using Cons.prems len by (simp only: context_loop_Cons) (simp add: nth_append)
  next
    case (Suc j')
    then have "j' < length rs" using Cons.prems by simp
    then have "context_loop str_of (Suc i) rs [] ! (5 * j' + k)
        = document_block str_of (Suc i + j') (rs ! j') ! k"
      using Cons.IH Cons.prems(2) by blast
    moreover have "5 * j + k = 5 + (5 * j' + k)" using Suc by simp
    ultimately show ?thesis using Suc len
      by (simp only: context_loop_Cons) (simp add: nth_append)
  qed
qed

lemma dropWhile_hd_id: "xs \<noteq> [] \<Longrightarrow> \<not> P (hd xs) \<Longrightarrow> dropWhile P xs = xs"
  by (cases xs) simp_all

lemma strip_id:
  assumes "s \<noteq> []" "\<not> is_space (hd s)" "\<not> is_space (last s)"
  shows "strip s = s"
proof -
  have a: "dropWhile is_space s = s" using assms(1,2) by (rule dropWhile_hd_id)
  have "rev s \<noteq> []" "\<not> is_space (hd (rev s))" using assms(1,3) by (simp_all add: hd_rev)
  then have b: "dropWhile is_space (rev s) = rev s" by (rule dropWhile_hd_id)
  show ?thesis by (simp add: strip_def a b)
qed

lemma prompt_head_hd: "prompt_head \<noteq> []" "hd prompt_head = CHR ''Y''"
  by (simp_all add: prompt_head_def)

lemma prompt_instructions_last:
  "prompt_instructions \<noteq> []" "last prompt_instructions = CHR '':''"
  "suffix ''Answer:'' prompt_instructions"
  by (simp_all add: prompt_instructions_def suffix_def)

lemma build_prompt_eq:
  "build_prompt str_of query results =
     prompt_head @ join ''\<newline>'' (context_loop str_of 1 results []) @ prompt_question @ query @
     prompt_instructions"
proof -
  let ?s = "prompt_head @ join ''\<newline>'' (context_loop str_of 1 results []) @ prompt_question @ query @
     prompt_instructions"
  have "?s \<noteq> []" using prompt_head_hd(1) by simp
  moreover have "hd ?s = CHR ''Y''" using prompt_head_hd by simp
  moreover have "last ?s = CHR '':''" using prompt_instructions_last(1,2) by simp
  ultimately have "strip ?s = ?s" by (intro strip_id) (simp_all add: is_space_def)
  then show ?thesis by (simp add: build_prompt_def Let_def)
qed

lemma suffix_last: "suffix xs ys \<Longrightarrow> xs \<noteq> [] \<Longrightarrow> last ys = last xs"
  by (auto simp: suffix_def)

lemma build_prompt_last: "last (build_prompt str_of query results) = CHR '':''"
  using prompt_instructions_last(1,2) by (simp add: build_prompt_eq)

text \<open>
  Claim C2, as the code has it: for every list of results and every query, the prompt is
  the fixed head, the context, the line \<open>User Question:\<close> with the query verbatim, and
  then the fixed instructions, which end with \<open>Answer:\<close>. The context holds five lines
  for each result, in rank order: the label with the 1-based rank and the score, the
  title, the source, the content, and an empty line. A finite score is printed with
  exactly three decimals.
\<close>

theorem build_prompt_blocks:
  "build_prompt str_of query results =
     prompt_head @ join ''\<newline>'' (context_loop str_of 1 results []) @
     prompt_question @ query @ prompt_instructions
   \<and> length (context_loop str_of 1 results []) = 5 * length results
   \<and> (\<forall>j < length results.
        context_loop str_of 1 results [] ! (5 * j) =
          ''Document '' @ dec (j + 1) @ '' (Score: '' @ format_3f (res_score (results ! j)) @ ''):''
      \<and> context_loop str_of 1 results [] ! (5 * j + 1) =
          ''Title: '' @ py_str str_of (res_title (results ! j))
      \<and> context_loop str_of 1 results [] ! (5 * j + 2) =
          ''Source: '' @ py_str str_of (res_source (results ! j))
      \<and> context_loop str_of 1 results [] ! (5 * j + 3) =
          ''Content: '' @ py_str str_of (res_content (results ! j))
      \<and> context_loop str_of 1 results [] ! (5 * j + 4) = []
      \<and> (\<forall>sign m e. res_score (results ! j) = Finite sign m e \<longrightarrow>
            three_decimals (format_3f (res_score (results ! j)))))
   \<and> suffix (prompt_question @ query @ prompt_instructions) (build_prompt str_of query results)
   \<and> suffix ''Answer:'' (build_prompt str_of query results)"
proof -
  have a: "build_prompt str_of query results =
     prompt_head @ join ''\<newline>'' (context_loop str_of 1 results []) @
     prompt_question @ query @ prompt_instructions"
    by (rule build_prompt_eq)
  have b: "length (context_loop str_of 1 results []) = 5 * length results"
    by (rule length_context_loop)
  have c: "context_loop str_of 1 results [] ! (5 * j) =
          ''Document '' @ dec (j + 1) @ '' (Score: '' @ format_3f (res_score (results ! j)) @ ''):''
      \<and> context_loop str_of 1 results [] ! (5 * j + 1) =
          ''Title: '' @ py_str str_of (res_title (results ! j))
      \<and> context_loop str_of 1 results [] ! (5 * j + 2) =
          ''Source: '' @ py_str str_of (res_source (results ! j))
      \<and> context_loop str_of 1 results [] ! (5 * j + 3) =
          ''Content: '' @ py_str str_of (res_content (results ! j))
      \<and> context_loop str_of 1 results [] ! (5 * j + 4) = []
      \<and> (\<forall>sign m e. res_score (results ! j) = Finite sign m e \<longrightarrow>
            three_decimals (format_3f (res_score (results ! j))))"
    if j: "j < length results" for j
  proof -
    have n: "context_loop str_of 1 results [] ! (5 * j + k)
        = document_block str_of (1 + j) (results ! j) ! k" if "k < 5" for k
      using context_loop_nth [OF j that] .
    have d: "\<forall>sign m e. res_score (results ! j) = Finite sign m e \<longrightarrow>
            three_decimals (format_3f (res_score (results ! j)))"
      using format_3f_finite by metis
    show ?thesis
      using n [of 0] n [of 1] n [of 2] n [of 3] n [of 4] d
      by (simp add: document_block_def add.commute)
  qed
  have d: "suffix (prompt_question @ query @ prompt_instructions) (build_prompt str_of query results)"
    unfolding a suffix_def by (metis append.assoc)
  have e: "suffix ''Answer:'' (build_prompt str_of query results)"
  proof -
    obtain zs where "prompt_instructions = zs @ ''Answer:''"
      using prompt_instructions_last(3) by (auto simp: suffix_def)
    then show ?thesis unfolding a suffix_def by (metis append.assoc)
  qed
  show ?thesis using a b c d e by blast
qed

lemma sample_results_eq:
  "sample_results =
     [\<lparr>res_score = Finite False 7 (- 3), res_id = PStr ''p1'',
       res_title = PStr ''Saguaro'', res_type = PStr ''plant'',
       res_source = PStr ''X'',
       res_content = PStr ''Carnegiea gigantea tolerates extreme heat'',
       res_metadata = PDict []\<rparr>,
      \<lparr>res_score = Finite False 3 (- 2), res_id = PStr ''p2'',
       res_title = PStr ''Ocotillo'', res_type = PStr ''plant'',
       res_source = PStr ''Y'',
       res_content = PStr ''Fouquieria splendens leafs out after rain'',
       res_metadata = PDict []\<rparr>]"
  by (simp add: sample_results_def sample_points_def format_point_def dict_get_def)

lemma format_3f_samples:
  "format_3f (Finite False 7 (- 3)) = ''0.875''"
  "format_3f (Finite False 3 (- 2)) = ''0.750''"
  by (simp_all add: thousandths_def round_half_even_def Let_def dec.simps digit_char_def)

theorem build_prompt_blocks_witness:
  "length sample_results = 2
   \<and> length (context_loop sample_str_of 1 sample_results []) = 10
   \<and> context_loop sample_str_of 1 sample_results [] ! 0 = ''Document 1 (Score: 0.875):''
   \<and> context_loop sample_str_of 1 sample_results [] ! 1 = ''Title: Saguaro''
   \<and> context_loop sample_str_of 1 sample_results [] ! 5 = ''Document 2 (Score: 0.750):''
   \<and> context_loop sample_str_of 1 sample_results [] ! 8 = ''Content: Fouquieria splendens leafs out after rain''
   \<and> context_loop sample_str_of 1 sample_results [] ! 9 = []
   \<and> res_score (sample_results ! 0) = Finite False 7 (- 3)
   \<and> three_decimals (format_3f (res_score (sample_results ! 0)))
   \<and> suffix ''Answer:'' (build_prompt sample_str_of ''cactus'' sample_results)"
proof -
  note t = build_prompt_blocks [of sample_str_of "''cactus''" sample_results]
  have l: "length sample_results = 2" by (simp add: sample_results_eq)
  have j0: "(0::nat) < length sample_results" and j1: "(1::nat) < length sample_results"
    using l by simp_all
  have s0: "res_score (sample_results ! 0) = Finite False 7 (- 3)"
    by (simp add: sample_results_eq)
  from t have len: "length (context_loop sample_str_of 1 sample_results []) = 5 * length sample_results"
    by blast
  from t have blocks: "\<forall>j < length sample_results.
        context_loop sample_str_of 1 sample_results [] ! (5 * j) =
          ''Document '' @ dec (j + 1) @ '' (Score: '' @ format_3f (res_score (sample_results ! j)) @ ''):''
      \<and> context_loop sample_str_of 1 sample_results [] ! (5 * j + 1) =
          ''Title: '' @ py_str sample_str_of (res_title (sample_results ! j))
      \<and> context_loop sample_str_of 1 sample_results [] ! (5 * j + 2) =
          ''Source: '' @ py_str sample_str_of (res_source (sample_results ! j))
      \<and> context_loop sample_str_of 1 sample_results [] ! (5 * j + 3) =
          ''Content: '' @ py_str sample_str_of (res_content (sample_results ! j))
      \<and> context_loop sample_str_of 1 sample_results [] ! (5 * j + 4) = []
      \<and> (\<forall>sign m e. res_score (sample_results ! j) = Finite sign m e \<longrightarrow>
            three_decimals (format_3f (res_score (sample_results ! j))))"
    by blast
  from t have sfx: "suffix ''Answer:'' (build_prompt sample_str_of ''cactus'' sample_results)"
    by blast
  have td: "three_decimals (format_3f (res_score (sample_results ! 0)))"
    using blocks j0 s0 by blast
  have b0: "context_loop sample_str_of 1 sample_results [] ! 0 = ''Document 1 (Score: 0.875):''"
    "context_loop sample_str_of 1 sample_results [] ! 1 = ''Title: Saguaro''"
    using blocks [rule_format, OF j0, THEN conjunct1]
      blocks [rule_format, OF j0, THEN conjunct2, THEN conjunct1]
    by (simp_all add: sample_results_eq format_3f_samples dec.simps digit_char_def del: format_3f.simps)
  have b1: "context_loop sample_str_of 1 sample_results [] ! 5 = ''Document 2 (Score: 0.750):''"
    "context_loop sample_str_of 1 sample_results [] ! 8 = ''Content: Fouquieria splendens leafs out after rain''"
    "context_loop sample_str_of 1 sample_results [] ! 9 = []"
    using blocks [rule_format, OF j1, THEN conjunct1]
      blocks [rule_format, OF j1, THEN conjunct2, THEN conjunct2, THEN conjunct2, THEN conjunct1]
      blocks [rule_format, OF j1, THEN conjunct2, THEN conjunct2, THEN conjunct2, THEN conjunct2,
        THEN conjunct1]
    by (simp_all add: sample_results_eq format_3f_samples dec.simps digit_char_def del: format_3f.simps)
  show ?thesis using l len s0 td b0 b1 sfx by simp
qed

text \<open>
  The claim as the specification words it fails in two places: the prompt does not end
  with the query (it ends with \<open>Answer:\<close>), and a score that is not a number is
  printed as \<open>nan\<close>, with no decimals.
\<close>

theorem build_prompt_counterexample:
  "\<not> suffix ''cactus'' (build_prompt sample_str_of ''cactus'' sample_results)
   \<and> format_3f NaN = ''nan'' \<and> \<not> three_decimals (format_3f NaN)"
proof -
  have "\<not> suffix ''cactus'' (build_prompt sample_str_of ''cactus'' sample_results)"
  proof
    assume "suffix ''cactus'' (build_prompt sample_str_of ''cactus'' sample_results)"
    then have "last (build_prompt sample_str_of ''cactus'' sample_results) = last ''cactus''"
      by (rule suffix_last) simp
    then show False by (simp add: build_prompt_last)
  qed
  moreover have "\<not> three_decimals (format_3f NaN)"
    by (simp add: three_decimals_def is_digit_def)
  ultimately show ?thesis by simp
qed

subsection \<open>The endpoint \<open>/query\<close>\<close>

text \<open>
  Claim C1 at a concrete request: with three documents in the index and \<open>top_k = 1\<close>,
  \<open>query_rag\<close> builds the prompt from the three results of a search with limit 5, and
  returns, beside the answer, the one result of a second search with limit 1.
\<close>

theorem query_rag_top_k_1:
  "query_rag sample_app sample_str_of \<lparr>question = ''saguaro care'', top_k = 1\<rparr> =
     ([Encode ''saguaro care'',
       Search ''arizona_plants'' (sample_vector ''saguaro care'') 5,
       ChatCompletion (build_prompt sample_str_of ''saguaro care'' (map format_point sample_points)),
       Encode ''saguaro care'',
       Search ''arizona_plants'' (sample_vector ''saguaro care'') 1],
      Inr \<lparr>resp_question = ''saguaro care'',
           resp_answer = ''According to Document 1, the saguaro tolerates heat.'',
           retrieved_documents =
             [\<lparr>api_id = ''p1'', api_title = ''Saguaro'', api_score = Finite False 7 (- 3),
               api_content = ''Carnegiea gigantea tolerates extreme heat'',
               api_type = ''plant'', api_source = ''X''\<rparr>],
           resp_model = ''gpt-4o-mini''\<rparr>)
   \<and> length (map format_point sample_points) = 3"
proof -
  have s5: "search sample_store ''saguaro care'' 5 =
      ([Encode ''saguaro care'', Search ''arizona_plants'' (sample_vector ''saguaro care'') 5],
       Inr (map format_point sample_points))"
    by (simp add: search_def sample_store_def sample_encode_def sample_client_search_def
        sample_points_def)
  have s1: "search sample_store ''saguaro care'' 1 =
      ([Encode ''saguaro care'', Search ''arizona_plants'' (sample_vector ''saguaro care'') 1],
       Inr [format_point (sample_points ! 0)])"
    by (simp add: search_def sample_store_def sample_encode_def sample_client_search_def
        sample_points_def)
  have r: "rag sample_rag sample_str_of ''saguaro care'' =
      ([Encode ''saguaro care'', Search ''arizona_plants'' (sample_vector ''saguaro care'') 5,
        ChatCompletion (build_prompt sample_str_of ''saguaro care'' (map format_point sample_points))],
       Inr ''According to Document 1, the saguaro tolerates heat.'')"
    by (simp add: rag_def sample_rag_def s5 llm_def Let_def sample_chat_completion_def)
  have d: "SearchResult (format_point (sample_points ! 0)) =
      Inr \<lparr>api_id = ''p1'', api_title = ''Saguaro'', api_score = Finite False 7 (- 3),
               api_content = ''Carnegiea gigantea tolerates extreme heat'',
               api_type = ''plant'', api_source = ''X''\<rparr>"
    by (simp add: SearchResult_def format_point_def sample_points_def dict_get_def
        display_content_def)
  have "query_rag_body sample_app sample_str_of \<lparr>question = ''saguaro care'', top_k = 1\<rparr> =
     ([Encode ''saguaro care'',
       Search ''arizona_plants'' (sample_vector ''saguaro care'') 5,
       ChatCompletion (build_prompt sample_str_of ''saguaro care'' (map format_point sample_points)),
       Encode ''saguaro care'',
       Search ''arizona_plants'' (sample_vector ''saguaro care'') 1],
      Inr \<lparr>resp_question = ''saguaro care'',
           resp_answer = ''According to Document 1, the saguaro tolerates heat.'',
           retrieved_documents =
             [\<lparr>api_id = ''p1'', api_title = ''Saguaro'', api_score = Finite False 7 (- 3),
               api_content = ''Carnegiea gigantea tolerates extreme heat'',
               api_type = ''plant'', api_source = ''X''\<rparr>],
           resp_model = ''gpt-4o-mini''\<rparr>)"
    by (simp add: query_rag_body_def sample_app_def r s1 d)
  then show ?thesis by (simp add: query_rag_def sample_points_def)
qed

end
